theory Spec2Isabelle
  imports Complex_Main "HOL-Library.Word" "HOL-Library.Sublist"
begin

section \<open>Shared result shapes\<close>

text \<open>
  \<^verbatim>\<open>ExpoTextExtractorModule.ts\<close> declares the two shapes that cross the bridge,
  \<^verbatim>\<open>TextBoundingBox {x, y, width, height}\<close> and
  \<^verbatim>\<open>RecognizedText {text, confidence, boundingBox}\<close>. The TypeScript field type is
  \<^verbatim>\<open>number\<close>; what the two native modules really put there differs (Kotlin
  \<^verbatim>\<open>Int?\<close>, Swift \<^verbatim>\<open>CGFloat\<close>), so the field type is a parameter here.
  Kotlin \<^verbatim>\<open>Int\<close> is a 32-bit word. Kotlin \<^verbatim>\<open>Float\<close>, Swift \<^verbatim>\<open>CGFloat\<close> and
  \<^verbatim>\<open>VNConfidence\<close> are modelled as \<^typ>\<open>real\<close>: rounding is not modelled.
\<close>

record 'n TextBoundingBox =
  box_x :: 'n
  box_y :: 'n
  box_width :: 'n
  box_height :: 'n

record 'n RecognizedText =
  rt_text :: string
  rt_confidence :: real
  rt_boundingBox :: "'n TextBoundingBox"

text \<open>
  A promise is settled once, by \<^verbatim>\<open>promise.resolve\<close> or \<^verbatim>\<open>promise.reject\<close>.
  Every native operation below returns the settlement together with the list of images it
  handed to the vendor recogniser, so that "the recogniser was not called" is the empty list.
\<close>

datatype ('e, 'a) promise = Resolved 'a | Rejected 'e

section \<open>The Android module (Kotlin)\<close>

text \<open>\<^verbatim>\<open>android.graphics.Rect\<close>: four \<^verbatim>\<open>int\<close> fields; \<^verbatim>\<open>width()\<close> is
  \<^verbatim>\<open>right - left\<close> and \<^verbatim>\<open>height()\<close> is \<^verbatim>\<open>bottom - top\<close>, in 32-bit arithmetic.\<close>

record Rect =
  rect_left :: "32 word"
  rect_top :: "32 word"
  rect_right :: "32 word"
  rect_bottom :: "32 word"

definition rect_width :: "Rect \<Rightarrow> 32 word" where
  "rect_width r = rect_right r - rect_left r"

definition rect_height :: "Rect \<Rightarrow> 32 word" where
  "rect_height r = rect_bottom r - rect_top r"

text \<open>What the Kotlin code reads of an ML Kit text block: \<^verbatim>\<open>text\<close>, the nullable
  \<^verbatim>\<open>confidence\<close> and the nullable \<^verbatim>\<open>boundingBox\<close>.\<close>

record TextBlock =
  tb_text :: string
  tb_confidence :: "real option"
  tb_boundingBox :: "Rect option"

text \<open>A JVM throwable, as far as the code looks at it: its nullable \<^verbatim>\<open>message\<close>.\<close>

datatype throwable = Throwable (getMessage: "string option")

text \<open>
  \<^verbatim>\<open>CodedException\<close> is built three ways in the module: \<^verbatim>\<open>CodedException("err", error)\<close>,
  \<^verbatim>\<open>CodedException(code, message)\<close> and \<^verbatim>\<open>CodedException(code, message, cause)\<close>. The
  first argument is the tag the caller sees; the model keeps the arguments as written.
\<close>

record CodedException =
  ce_code :: string
  ce_message :: "string option"
  ce_cause :: "throwable option"

datatype Uri = Uri_parse string | Uri_fromFile string

text \<open>
  The platform calls the module makes, as parameters:
  \<^verbatim>\<open>appContext.reactContext\<close> (null or not), \<^verbatim>\<open>File(p).exists()\<close>,
  \<^verbatim>\<open>InputImage.fromFilePath\<close> (throws \<^verbatim>\<open>IOException\<close>), \<^verbatim>\<open>Base64.decode\<close> (throws
  \<^verbatim>\<open>IllegalArgumentException\<close> on bad input), \<^verbatim>\<open>BitmapFactory.decodeByteArray\<close> (null
  when the bytes are no image), \<^verbatim>\<open>InputImage.fromBitmap\<close>, and
  \<^verbatim>\<open>recognizer.process\<close>, whose task ends in the failure listener (\<open>Inl\<close>) or in the
  success listener with the text blocks (\<open>Inr\<close>).
\<close>

record ('bmp, 'img) android_env =
  reactContext :: bool
  file_exists :: "string \<Rightarrow> bool"
  fromFilePath :: "Uri \<Rightarrow> throwable + 'img"
  Base64_decode :: "string \<Rightarrow> throwable + 8 word list"
  decodeByteArray :: "8 word list \<Rightarrow> 'bmp option"
  fromBitmap :: "'bmp \<Rightarrow> 'img"
  process :: "'img \<Rightarrow> throwable + TextBlock list"

definition orElse :: "'a option \<Rightarrow> 'a \<Rightarrow> 'a" where
  \<comment> \<open>Kotlin's \<^verbatim>\<open>a ?: b\<close>\<close>
  "orElse a b = (case a of None \<Rightarrow> b | Some v \<Rightarrow> v)"

definition unknown_error :: "throwable \<Rightarrow> CodedException" where
  \<comment> \<open>\<^verbatim>\<open>CodedException("UNKNOWN_ERROR", error.message ?: "Unknown error", error)\<close>\<close>
  "unknown_error error =
     \<lparr>ce_code = ''UNKNOWN_ERROR'',
      ce_message = Some (orElse (getMessage error) ''Unknown error''),
      ce_cause = Some error\<rparr>"

definition text_recognition_error :: "throwable \<Rightarrow> CodedException" where
  \<comment> \<open>\<^verbatim>\<open>CodedException("TEXT_RECOGNITION_ERROR", error.message ?: "Text recognition failed", error)\<close>\<close>
  "text_recognition_error error =
     \<lparr>ce_code = ''TEXT_RECOGNITION_ERROR'',
      ce_message = Some (orElse (getMessage error) ''Text recognition failed''),
      ce_cause = Some error\<rparr>"

definition invalid_image :: CodedException where
  \<comment> \<open>\<^verbatim>\<open>CodedException("INVALID_IMAGE", "Unable to decode image from base64 data")\<close>\<close>
  "invalid_image =
     \<lparr>ce_code = ''INVALID_IMAGE'',
      ce_message = Some ''Unable to decode image from base64 data'',
      ce_cause = None\<rparr>"

definition err_exception :: "throwable \<Rightarrow> CodedException" where
  \<comment> \<open>\<^verbatim>\<open>CodedException("err", error)\<close>\<close>
  "err_exception error = \<lparr>ce_code = ''err'', ce_message = None, ce_cause = Some error\<rparr>"

definition open_uri :: "('bmp, 'img) android_env \<Rightarrow> string \<Rightarrow> throwable + Uri" where
  \<comment> \<open>the head of both file operations: \<^verbatim>\<open>reactContext!!\<close>, then the uri\<close>
  "open_uri env uriString =
     (if \<not> reactContext env then Inl (Throwable None)
      else if prefix ''content://'' uriString then Inr (Uri_parse uriString)
      else if \<not> file_exists env uriString
        then Inl (Throwable (Some (''File not found: '' @ uriString)))
      else Inr (Uri_fromFile uriString))"

definition android_extractTextFromImage ::
  "('bmp, 'img) android_env \<Rightarrow> string \<Rightarrow> (CodedException, string list) promise \<times> 'img list" where
  "android_extractTextFromImage env uriString =
     (case open_uri env uriString of
        Inl error \<Rightarrow> (Rejected (unknown_error error), [])
      | Inr uri \<Rightarrow>
          (case fromFilePath env uri of
             Inl error \<Rightarrow> (Rejected (unknown_error error), [])
           | Inr inputImage \<Rightarrow>
               (case process env inputImage of
                  Inl error \<Rightarrow> (Rejected (err_exception error), [inputImage])
                | Inr textBlocks \<Rightarrow> (Resolved (map tb_text textBlocks), [inputImage]))))"

definition android_extractTextFromImageData ::
  "('bmp, 'img) android_env \<Rightarrow> string \<Rightarrow> (CodedException, string list) promise \<times> 'img list" where
  "android_extractTextFromImageData env base64Data =
     (case Base64_decode env base64Data of
        Inl error \<Rightarrow> (Rejected (unknown_error error), [])
      | Inr imageBytes \<Rightarrow>
          (case decodeByteArray env imageBytes of
             None \<Rightarrow> (Rejected invalid_image, [])
           | Some bitmap \<Rightarrow>
               (let inputImage = fromBitmap env bitmap in
                case process env inputImage of
                  Inl error \<Rightarrow> (Rejected (text_recognition_error error), [inputImage])
                | Inr textBlocks \<Rightarrow> (Resolved (map tb_text textBlocks), [inputImage]))))"

definition block_details :: "TextBlock \<Rightarrow> (32 word option) RecognizedText" where
  \<comment> \<open>the \<^verbatim>\<open>mapOf("text" to ..., "confidence" to ..., "boundingBox" to mapOf(...))\<close> of both
      detail operations; \<^verbatim>\<open>boundingBox?.left\<close> is null when the box is\<close>
  "block_details textBlock =
     \<lparr>rt_text = tb_text textBlock,
      rt_confidence = orElse (tb_confidence textBlock) 0.5,
      rt_boundingBox =
        \<lparr>box_x = map_option rect_left (tb_boundingBox textBlock),
         box_y = map_option rect_top (tb_boundingBox textBlock),
         box_width = map_option rect_width (tb_boundingBox textBlock),
         box_height = map_option rect_height (tb_boundingBox textBlock)\<rparr>\<rparr>"

definition android_extractTextFromImageWithDetails ::
  "('bmp, 'img) android_env \<Rightarrow> string \<Rightarrow>
     (CodedException, (32 word option) RecognizedText list) promise \<times> 'img list" where
  "android_extractTextFromImageWithDetails env uriString =
     (case open_uri env uriString of
        Inl error \<Rightarrow> (Rejected (unknown_error error), [])
      | Inr uri \<Rightarrow>
          (case fromFilePath env uri of
             Inl error \<Rightarrow> (Rejected (unknown_error error), [])
           | Inr inputImage \<Rightarrow>
               (case process env inputImage of
                  Inl error \<Rightarrow> (Rejected (text_recognition_error error), [inputImage])
                | Inr textBlocks \<Rightarrow> (Resolved (map block_details textBlocks), [inputImage]))))"

definition android_extractTextFromImageDataWithDetails ::
  "('bmp, 'img) android_env \<Rightarrow> string \<Rightarrow>
     (CodedException, (32 word option) RecognizedText list) promise \<times> 'img list" where
  "android_extractTextFromImageDataWithDetails env base64Data =
     (case Base64_decode env base64Data of
        Inl error \<Rightarrow> (Rejected (unknown_error error), [])
      | Inr imageBytes \<Rightarrow>
          (case decodeByteArray env imageBytes of
             None \<Rightarrow> (Rejected invalid_image, [])
           | Some bitmap \<Rightarrow>
               (let inputImage = fromBitmap env bitmap in
                case process env inputImage of
                  Inl error \<Rightarrow> (Rejected (text_recognition_error error), [inputImage])
                | Inr textBlocks \<Rightarrow> (Resolved (map block_details textBlocks), [inputImage]))))"

section \<open>The iOS module (Swift)\<close>

text \<open>What the Swift code reads of a \<^verbatim>\<open>CGRect\<close>: \<^verbatim>\<open>origin.x\<close>, \<^verbatim>\<open>origin.y\<close>,
  \<^verbatim>\<open>width\<close>, \<^verbatim>\<open>height\<close>; of a \<^verbatim>\<open>CGImage\<close>: its integer \<^verbatim>\<open>width\<close> and
  \<^verbatim>\<open>height\<close>; of an observation: \<^verbatim>\<open>topCandidates(1)\<close> and \<^verbatim>\<open>boundingBox\<close>.\<close>

record CGRect =
  cg_origin_x :: real
  cg_origin_y :: real
  cg_width :: real
  cg_height :: real

record CGImage =
  img_width :: nat
  img_height :: nat

record VNRecognizedText =
  vn_string :: string
  vn_confidence :: real

record VNRecognizedTextObservation =
  topCandidates1 :: "VNRecognizedText list"
  obs_boundingBox :: CGRect

text \<open>A Swift error is either the module's own \<^verbatim>\<open>Exception(name:description:)\<close> or an
  error thrown by Foundation or Vision, which the module passes on as it is.\<close>

datatype swift_error = Exception string string | NSError string

text \<open>
  The platform calls: \<^verbatim>\<open>Data(contentsOf:)\<close> (throws), \<^verbatim>\<open>Data(base64Encoded:)\<close> (nil on bad
  input), \<^verbatim>\<open>UIImage(data:)?.cgImage\<close> (nil when the data is no image) and
  \<^verbatim>\<open>requestHandler.perform\<close>: it throws (\<open>Inl\<close>), or the completion handler runs with
  \<^verbatim>\<open>request.results\<close> not castable (\<open>Inr None\<close>) or with the observations.
\<close>

record ios_env =
  Data_contentsOf :: "string \<Rightarrow> swift_error + 8 word list"
  Data_base64Encoded :: "string \<Rightarrow> 8 word list option"
  UIImage_cgImage :: "8 word list \<Rightarrow> CGImage option"
  perform :: "CGImage \<Rightarrow> swift_error + VNRecognizedTextObservation list option"

fun compactMap :: "('a \<Rightarrow> 'b option) \<Rightarrow> 'a list \<Rightarrow> 'b list" where
  "compactMap f [] = []"
| "compactMap f (x # xs) = (case f x of None \<Rightarrow> compactMap f xs | Some y \<Rightarrow> y # compactMap f xs)"

definition top_string :: "VNRecognizedTextObservation \<Rightarrow> string option" where
  \<comment> \<open>\<^verbatim>\<open>observation.topCandidates(1).first?.string\<close>\<close>
  "top_string observation =
     (case topCandidates1 observation of [] \<Rightarrow> None | c # _ \<Rightarrow> Some (vn_string c))"

definition normalizedToPixel :: "CGRect \<Rightarrow> CGImage \<Rightarrow> real TextBoundingBox" where
  \<comment> \<open>the block "Convert normalized coordinates to pixel coordinates" of both detail
      operations; \<^verbatim>\<open>imageSize = CGSize(width: cgImage.width, height: cgImage.height)\<close>\<close>
  "normalizedToPixel boundingBox cgImage =
     (let imageSize_width = real (img_width cgImage);
          imageSize_height = real (img_height cgImage)
      in \<lparr>box_x = cg_origin_x boundingBox * imageSize_width,
          box_y = (1 - cg_origin_y boundingBox - cg_height boundingBox) * imageSize_height,
          box_width = cg_width boundingBox * imageSize_width,
          box_height = cg_height boundingBox * imageSize_height\<rparr>)"

definition observation_details ::
  "CGImage \<Rightarrow> VNRecognizedTextObservation \<Rightarrow> real RecognizedText option" where
  \<comment> \<open>the closure given to \<^verbatim>\<open>compactMap\<close> in both detail operations\<close>
  "observation_details cgImage observation =
     (case topCandidates1 observation of
        [] \<Rightarrow> None
      | topCandidate # _ \<Rightarrow>
          Some \<lparr>rt_text = vn_string topCandidate,
                rt_confidence = vn_confidence topCandidate,
                rt_boundingBox = normalizedToPixel (obs_boundingBox observation) cgImage\<rparr>)"

definition ios_extractTextFromImage ::
  "ios_env \<Rightarrow> string \<Rightarrow> (swift_error, string list) promise \<times> CGImage list" where
  "ios_extractTextFromImage env url =
     (case Data_contentsOf env url of
        Inl error \<Rightarrow> (Rejected error, [])
      | Inr imageData \<Rightarrow>
          (case UIImage_cgImage env imageData of
             None \<Rightarrow> (Rejected (Exception ''err'' ''err''), [])
           | Some cgImage \<Rightarrow>
               (case perform env cgImage of
                  Inl error \<Rightarrow> (Rejected error, [cgImage])
                | Inr None \<Rightarrow> (Resolved [], [cgImage])
                | Inr (Some observations) \<Rightarrow>
                    (Resolved (compactMap top_string observations), [cgImage]))))"

definition ios_extractTextFromImageData ::
  "ios_env \<Rightarrow> string \<Rightarrow> (swift_error, string list) promise \<times> CGImage list" where
  "ios_extractTextFromImageData env base64Data =
     (case Data_base64Encoded env base64Data of
        None \<Rightarrow> (Rejected (Exception ''INVALID_BASE64'' ''Invalid base64 data''), [])
      | Some imageData \<Rightarrow>
          (case UIImage_cgImage env imageData of
             None \<Rightarrow>
               (Rejected (Exception ''INVALID_IMAGE'' ''Unable to create image from data''), [])
           | Some cgImage \<Rightarrow>
               (case perform env cgImage of
                  Inl error \<Rightarrow> (Rejected error, [cgImage])
                | Inr None \<Rightarrow> (Resolved [], [cgImage])
                | Inr (Some observations) \<Rightarrow>
                    (Resolved (compactMap top_string observations), [cgImage]))))"

definition ios_extractTextFromImageWithDetails ::
  "ios_env \<Rightarrow> string \<Rightarrow> (swift_error, real RecognizedText list) promise \<times> CGImage list" where
  "ios_extractTextFromImageWithDetails env url =
     (case Data_contentsOf env url of
        Inl error \<Rightarrow> (Rejected error, [])
      | Inr imageData \<Rightarrow>
          (case UIImage_cgImage env imageData of
             None \<Rightarrow>
               (Rejected (Exception ''INVALID_IMAGE'' ''Unable to create image from file''), [])
           | Some cgImage \<Rightarrow>
               (case perform env cgImage of
                  Inl error \<Rightarrow> (Rejected error, [cgImage])
                | Inr None \<Rightarrow> (Resolved [], [cgImage])
                | Inr (Some observations) \<Rightarrow>
                    (Resolved (compactMap (observation_details cgImage) observations),
                     [cgImage]))))"

definition ios_extractTextFromImageDataWithDetails ::
  "ios_env \<Rightarrow> string \<Rightarrow> (swift_error, real RecognizedText list) promise \<times> CGImage list" where
  "ios_extractTextFromImageDataWithDetails env base64Data =
     (case Data_base64Encoded env base64Data of
        None \<Rightarrow> (Rejected (Exception ''INVALID_BASE64'' ''Invalid base64 data''), [])
      | Some imageData \<Rightarrow>
          (case UIImage_cgImage env imageData of
             None \<Rightarrow>
               (Rejected (Exception ''INVALID_IMAGE'' ''Unable to create image from data''), [])
           | Some cgImage \<Rightarrow>
               (case perform env cgImage of
                  Inl error \<Rightarrow> (Rejected error, [cgImage])
                | Inr None \<Rightarrow> (Resolved [], [cgImage])
                | Inr (Some observations) \<Rightarrow>
                    (Resolved (compactMap (observation_details cgImage) observations),
                     [cgImage]))))"

section \<open>The public surface (index.ts)\<close>

text \<open>
  JavaScript's \<^verbatim>\<open>String.prototype.replace\<close> with a string pattern replaces the first
  occurrence only (an empty pattern matches at index 0). The replacement is inserted as
  it is: the \<^verbatim>\<open>$\<close> patterns of a replacement string are not modelled, and the one
  replacement the code uses, the empty string, has none.
\<close>

fun String_replace :: "string \<Rightarrow> string \<Rightarrow> string \<Rightarrow> string" where
  "String_replace [] pat rep = (if pat = [] then rep else [])"
| "String_replace (c # cs) pat rep =
     (if prefix pat (c # cs) then rep @ drop (length pat) (c # cs)
      else c # String_replace cs pat rep)"

text \<open>The native module behind \<^verbatim>\<open>requireNativeModule('ExpoTextExtractor')\<close>: one constant
  and four functions. \<open>'s\<close> and \<open>'d\<close> are what the simple and the detailed calls
  settle with on the platform linked in.\<close>

record ('s, 'd) ExpoTextExtractorModule =
  native_isSupported :: bool
  native_extractTextFromImage :: "string \<Rightarrow> 's"
  native_extractTextFromImageData :: "string \<Rightarrow> 's"
  native_extractTextFromImageWithDetails :: "string \<Rightarrow> 'd"
  native_extractTextFromImageDataWithDetails :: "string \<Rightarrow> 'd"

definition isSupported :: "('s, 'd) ExpoTextExtractorModule \<Rightarrow> bool" where
  "isSupported m = native_isSupported m"

definition extractTextFromImage :: "('s, 'd) ExpoTextExtractorModule \<Rightarrow> string \<Rightarrow> 's" where
  "extractTextFromImage m uri =
     (let processedUri = String_replace uri ''file://'' []
      in native_extractTextFromImage m processedUri)"

definition extractTextFromImageData :: "('s, 'd) ExpoTextExtractorModule \<Rightarrow> string \<Rightarrow> 's" where
  "extractTextFromImageData m base64Data = native_extractTextFromImageData m base64Data"

definition extractTextFromImageWithDetails ::
  "('s, 'd) ExpoTextExtractorModule \<Rightarrow> string \<Rightarrow> 'd" where
  "extractTextFromImageWithDetails m uri =
     (let processedUri = String_replace uri ''file://'' []
      in native_extractTextFromImageWithDetails m processedUri)"

definition extractTextFromImageDataWithDetails ::
  "('s, 'd) ExpoTextExtractorModule \<Rightarrow> string \<Rightarrow> 'd" where
  "extractTextFromImageDataWithDetails m base64Data =
     native_extractTextFromImageDataWithDetails m base64Data"

definition android_module ::
  "('bmp, 'img) android_env \<Rightarrow>
   ((CodedException, string list) promise \<times> 'img list,
    (CodedException, (32 word option) RecognizedText list) promise \<times> 'img list)
   ExpoTextExtractorModule" where
  "android_module env =
     \<lparr>native_isSupported = True,
      native_extractTextFromImage = android_extractTextFromImage env,
      native_extractTextFromImageData = android_extractTextFromImageData env,
      native_extractTextFromImageWithDetails = android_extractTextFromImageWithDetails env,
      native_extractTextFromImageDataWithDetails =
        android_extractTextFromImageDataWithDetails env\<rparr>"

definition ios_module ::
  "ios_env \<Rightarrow>
   ((swift_error, string list) promise \<times> CGImage list,
    (swift_error, real RecognizedText list) promise \<times> CGImage list)
   ExpoTextExtractorModule" where
  "ios_module env =
     \<lparr>native_isSupported = True,
      native_extractTextFromImage = ios_extractTextFromImage env,
      native_extractTextFromImageData = ios_extractTextFromImageData env,
      native_extractTextFromImageWithDetails = ios_extractTextFromImageWithDetails env,
      native_extractTextFromImageDataWithDetails = ios_extractTextFromImageDataWithDetails env\<rparr>"

section \<open>Declarations of types.unified.ts\<close>

datatype OCRErrorCode =
  INVALID_IMAGE | INVALID_BASE64 | PROCESSING_FAILED | TIMEOUT | UNSUPPORTED_FORMAT
  | NETWORK_ERROR | MODEL_NOT_AVAILABLE | PERMISSION_DENIED | UNKNOWN_ERROR

fun OCRErrorCode_value :: "OCRErrorCode \<Rightarrow> string" where
  "OCRErrorCode_value INVALID_IMAGE = ''INVALID_IMAGE''"
| "OCRErrorCode_value INVALID_BASE64 = ''INVALID_BASE64''"
| "OCRErrorCode_value PROCESSING_FAILED = ''PROCESSING_FAILED''"
| "OCRErrorCode_value TIMEOUT = ''TIMEOUT''"
| "OCRErrorCode_value UNSUPPORTED_FORMAT = ''UNSUPPORTED_FORMAT''"
| "OCRErrorCode_value NETWORK_ERROR = ''NETWORK_ERROR''"
| "OCRErrorCode_value MODEL_NOT_AVAILABLE = ''MODEL_NOT_AVAILABLE''"
| "OCRErrorCode_value PERMISSION_DENIED = ''PERMISSION_DENIED''"
| "OCRErrorCode_value UNKNOWN_ERROR = ''UNKNOWN_ERROR''"

definition OCRErrorCode_values :: "string list" where
  "OCRErrorCode_values =
     map OCRErrorCode_value
       [INVALID_IMAGE, INVALID_BASE64, PROCESSING_FAILED, TIMEOUT, UNSUPPORTED_FORMAT,
        NETWORK_ERROR, MODEL_NOT_AVAILABLE, PERMISSION_DENIED, UNKNOWN_ERROR]"

datatype recognitionLevel = fast | accurate

text \<open>\<^verbatim>\<open>OCROptions\<close>: every field is optional; the nested \<^verbatim>\<open>platformOptions\<close> block is
  left out, nothing below reads it.\<close>

record OCROptions =
  opt_languages :: "string list option"
  opt_recognitionLevel :: "recognitionLevel option"
  opt_minConfidence :: "real option"
  opt_useLanguageCorrection :: "bool option"
  opt_customWords :: "string list option"
  opt_includeCharacters :: "bool option"
  opt_includeWords :: "bool option"
  opt_detectOrientation :: "bool option"
  opt_detectStyle :: "bool option"
  opt_timeout :: "real option"

definition applyMinConfidence :: "OCROptions \<Rightarrow> ('e \<Rightarrow> real) \<Rightarrow> 'e list \<Rightarrow> 'e list" where
  \<comment> \<open>Modelled from the spec: the \<^verbatim>\<open>minConfidence\<close> post-filter of the options translator.
      The sources hold only the declaration of \<^verbatim>\<open>OCROptions.minConfidence\<close> and the
      signatures \<^verbatim>\<open>toIOSOptions\<close>/\<^verbatim>\<open>toAndroidOptions\<close>; no function applies the option.
      The spec: "apply it as a post-filter over the unified result (drop entities below
      threshold)". The second argument reads an entity's confidence.\<close>
  "applyMinConfidence options confidence entities =
     (case opt_minConfidence options of
        None \<Rightarrow> entities
      | Some threshold \<Rightarrow> filter (\<lambda>e. threshold \<le> confidence e) entities)"

section \<open>Concrete scenarios\<close>

text \<open>
  An Android device with three files: the picture \<^verbatim>\<open>/sdcard/a.png\<close>,
  \<^verbatim>\<open>/sdcard/broken.png\<close>, which cannot be read as an image, and
  \<^verbatim>\<open>/sdcard/blurry.png\<close>, a picture on which recognition fails. The first picture shows
  two blocks, the first without confidence, the second without bounding box. The payload \<^verbatim>\<open>AAAA\<close> decodes
  to the first picture, \<^verbatim>\<open>AQID\<close> to the blurry one, \<^verbatim>\<open>QUJD\<close>
  to bytes that are no image, and nothing else is base64.
\<close>

definition hello_block :: TextBlock where
  "hello_block =
     \<lparr>tb_text = ''Hello'', tb_confidence = None,
      tb_boundingBox = Some \<lparr>rect_left = 10, rect_top = 20, rect_right = 110, rect_bottom = 50\<rparr>\<rparr>"

definition world_block :: TextBlock where
  "world_block = \<lparr>tb_text = ''World'', tb_confidence = Some 0.9, tb_boundingBox = None\<rparr>"

definition android_device :: "(nat, nat) android_env" where
  "android_device =
     \<lparr>reactContext = True,
      file_exists = (\<lambda>p. p = ''/sdcard/a.png'' \<or> p = ''/sdcard/broken.png''
                          \<or> p = ''/sdcard/blurry.png''),
      fromFilePath = (\<lambda>u. if u = Uri_fromFile ''/sdcard/broken.png''
                          then Inl (Throwable (Some ''Image cannot be decoded''))
                          else if u = Uri_fromFile ''/sdcard/blurry.png'' then Inr 2
                          else Inr 1),
      Base64_decode = (\<lambda>s. if s = ''AAAA'' then Inr [0, 0, 0]
                           else if s = ''AQID'' then Inr [1, 2, 3]
                           else if s = ''QUJD'' then Inr [65, 66, 67]
                           else Inl (Throwable (Some ''bad base-64''))),
      decodeByteArray = (\<lambda>b. if b = [0, 0, 0] then Some 1
                             else if b = [1, 2, 3] then Some 2
                             else None),
      fromBitmap = (\<lambda>b. b),
      process = (\<lambda>i. if i = 1 then Inr [hello_block, world_block]
                     else Inl (Throwable None))\<rparr>"

text \<open>
  An iPhone with four files: \<^verbatim>\<open>/a.png\<close>, a 200 by 100 image on which Vision reports
  two observations, the second without any candidate; \<^verbatim>\<open>/notes.txt\<close>, no image;
  \<^verbatim>\<open>/dark.png\<close>, a 64 by 64 image on which the request handler throws; and
  \<^verbatim>\<open>/blank.png\<close>, a 32 by 32 image for which the request has no results. The payloads
  \<^verbatim>\<open>AQ==\<close>, \<^verbatim>\<open>Aw==\<close>, \<^verbatim>\<open>BA==\<close> and \<^verbatim>\<open>BQ==\<close> decode to the contents of
  the four files, and nothing else is base64.
\<close>

definition centre_observation :: VNRecognizedTextObservation where
  "centre_observation =
     \<lparr>topCandidates1 = [\<lparr>vn_string = ''Hi'', vn_confidence = 0.95\<rparr>],
      obs_boundingBox =
        \<lparr>cg_origin_x = 0.25, cg_origin_y = 0.25, cg_width = 0.5, cg_height = 0.5\<rparr>\<rparr>"

definition empty_observation :: VNRecognizedTextObservation where
  "empty_observation =
     \<lparr>topCandidates1 = [],
      obs_boundingBox = \<lparr>cg_origin_x = 0, cg_origin_y = 0, cg_width = 1, cg_height = 1\<rparr>\<rparr>"

definition iphone :: ios_env where
  "iphone =
     \<lparr>Data_contentsOf = (\<lambda>u. if u = ''/a.png'' then Inr [1]
                             else if u = ''/notes.txt'' then Inr [3]
                             else if u = ''/dark.png'' then Inr [4]
                             else if u = ''/blank.png'' then Inr [5]
                             else Inl (NSError ''no such file'')),
      Data_base64Encoded = (\<lambda>s. if s = ''AQ=='' then Some [1]
                                else if s = ''Aw=='' then Some [3]
                                else if s = ''BA=='' then Some [4]
                                else if s = ''BQ=='' then Some [5]
                                else None),
      UIImage_cgImage = (\<lambda>b. if b = [1] then Some \<lparr>img_width = 200, img_height = 100\<rparr>
                             else if b = [4] then Some \<lparr>img_width = 64, img_height = 64\<rparr>
                             else if b = [5] then Some \<lparr>img_width = 32, img_height = 32\<rparr>
                             else None),
      perform = (\<lambda>i. if i = \<lparr>img_width = 200, img_height = 100\<rparr>
                       then Inr (Some [centre_observation, empty_observation])
                     else if i = \<lparr>img_width = 64, img_height = 64\<rparr>
                       then Inl (NSError ''request failed'')
                     else Inr None)\<rparr>"

text \<open>A native module that settles every call with the very string it was given: it
  shows what the public surface forwards.\<close>

definition echo_module :: "(string, string) ExpoTextExtractorModule" where
  "echo_module =
     \<lparr>native_isSupported = True,
      native_extractTextFromImage = (\<lambda>uri. uri),
      native_extractTextFromImageData = (\<lambda>base64Data. base64Data),
      native_extractTextFromImageWithDetails = (\<lambda>uri. uri),
      native_extractTextFromImageDataWithDetails = (\<lambda>base64Data. base64Data)\<rparr>"

text \<open>Options that set nothing but \<^verbatim>\<open>minConfidence = 0.9\<close>.\<close>

definition options_090 :: OCROptions where
  "options_090 =
     \<lparr>opt_languages = None, opt_recognitionLevel = None, opt_minConfidence = Some 0.9,
      opt_useLanguageCorrection = None, opt_customWords = None, opt_includeCharacters = None,
      opt_includeWords = None, opt_detectOrientation = None, opt_detectStyle = None,
      opt_timeout = None\<rparr>"

section \<open>Runs of the native operations\<close>

text \<open>When every platform call succeeds, each operation resolves with the mapped native
  result, after one call of the recogniser.\<close>

lemma android_file_run:
  assumes "open_uri env u = Inr uri" and "fromFilePath env uri = Inr img"
    and "process env img = Inr blocks"
  shows "android_extractTextFromImage env u = (Resolved (map tb_text blocks), [img])"
  using assms by (simp add: android_extractTextFromImage_def)

lemma android_file_details_run:
  assumes "open_uri env u = Inr uri" and "fromFilePath env uri = Inr img"
    and "process env img = Inr blocks"
  shows "android_extractTextFromImageWithDetails env u =
           (Resolved (map block_details blocks), [img])"
  using assms by (simp add: android_extractTextFromImageWithDetails_def)

lemma android_data_details_run:
  assumes "Base64_decode env d = Inr bytes" and "decodeByteArray env bytes = Some bmp"
    and "process env (fromBitmap env bmp) = Inr blocks"
  shows "android_extractTextFromImageDataWithDetails env d =
           (Resolved (map block_details blocks), [fromBitmap env bmp])"
  using assms by (simp add: android_extractTextFromImageDataWithDetails_def)

lemma ios_file_details_run:
  assumes "Data_contentsOf env u = Inr bytes" and "UIImage_cgImage env bytes = Some cgImage"
    and "perform env cgImage = Inr (Some observations)"
  shows "ios_extractTextFromImageWithDetails env u =
           (Resolved (compactMap (observation_details cgImage) observations), [cgImage])"
  using assms by (simp add: ios_extractTextFromImageWithDetails_def)

lemma ios_data_details_run:
  assumes "Data_base64Encoded env d = Some bytes" and "UIImage_cgImage env bytes = Some cgImage"
    and "perform env cgImage = Inr (Some observations)"
  shows "ios_extractTextFromImageDataWithDetails env d =
           (Resolved (compactMap (observation_details cgImage) observations), [cgImage])"
  using assms by (simp add: ios_extractTextFromImageDataWithDetails_def)

lemma android_device_open: "open_uri android_device ''/sdcard/a.png'' = Inr (Uri_fromFile ''/sdcard/a.png'')"
  by (simp add: open_uri_def android_device_def)

lemma android_device_image:
  "fromFilePath android_device (Uri_fromFile ''/sdcard/a.png'') = Inr 1"
  by (simp add: android_device_def)

lemma android_device_blocks: "process android_device 1 = Inr [hello_block, world_block]"
  by (simp add: android_device_def)

section \<open>Confidence on the Android detail path\<close>

text \<open>
  C6. On both Android detail operations, when the platform calls succeed the call resolves
  with one entry per text block; an entry's confidence is exactly 0.5 when the block's
  native confidence is absent, and the native confidence itself when it is present.
\<close>

theorem android_confidence_fallback:
  assumes "i < length blocks"
  shows "(open_uri env u = Inr uri \<and> fromFilePath env uri = Inr img
            \<and> process env img = Inr blocks \<longrightarrow>
          (\<exists>rs. fst (android_extractTextFromImageWithDetails env u) = Resolved rs
             \<and> length rs = length blocks
             \<and> (tb_confidence (blocks ! i) = None \<longrightarrow> rt_confidence (rs ! i) = 1 / 2)
             \<and> (\<forall>c. tb_confidence (blocks ! i) = Some c \<longrightarrow> rt_confidence (rs ! i) = c)))
       \<and> (Base64_decode env d = Inr bytes \<and> decodeByteArray env bytes = Some bmp
            \<and> process env (fromBitmap env bmp) = Inr blocks \<longrightarrow>
          (\<exists>rs. fst (android_extractTextFromImageDataWithDetails env d) = Resolved rs
             \<and> length rs = length blocks
             \<and> (tb_confidence (blocks ! i) = None \<longrightarrow> rt_confidence (rs ! i) = 1 / 2)
             \<and> (\<forall>c. tb_confidence (blocks ! i) = Some c \<longrightarrow> rt_confidence (rs ! i) = c)))"
  using assms
  by (auto simp: android_file_details_run android_data_details_run block_details_def orElse_def)

theorem android_confidence_fallback_witness:
  "tb_confidence ([hello_block, world_block] ! 0) = None
   \<and> tb_confidence ([hello_block, world_block] ! 1) = Some 0.9
   \<and> (\<exists>rs. fst (android_extractTextFromImageWithDetails android_device ''/sdcard/a.png'')
            = Resolved rs
        \<and> rt_confidence (rs ! 0) = 1 / 2 \<and> rt_confidence (rs ! 1) = 0.9)
   \<and> (\<exists>rs. fst (android_extractTextFromImageDataWithDetails android_device ''AAAA'')
            = Resolved rs
        \<and> rt_confidence (rs ! 0) = 1 / 2 \<and> rt_confidence (rs ! 1) = 0.9)"
proof -
  have len: "0 < length [hello_block, world_block]" "1 < length [hello_block, world_block]"
    by simp_all
  have c0: "tb_confidence ([hello_block, world_block] ! 0) = None"
    by (simp add: hello_block_def)
  have c1: "tb_confidence ([hello_block, world_block] ! 1) = Some 0.9"
    by (simp add: world_block_def)
  have path: "open_uri android_device ''/sdcard/a.png'' = Inr (Uri_fromFile ''/sdcard/a.png'')
      \<and> fromFilePath android_device (Uri_fromFile ''/sdcard/a.png'') = Inr 1
      \<and> process android_device 1 = Inr [hello_block, world_block]"
    by (simp add: android_device_def open_uri_def)
  have payload: "Base64_decode android_device ''AAAA'' = Inr [0, 0, 0]
      \<and> decodeByteArray android_device [0, 0, 0] = Some 1
      \<and> process android_device (fromBitmap android_device 1) = Inr [hello_block, world_block]"
    by (simp add: android_device_def)
  note run0 = android_confidence_fallback [where i = 0 and blocks = "[hello_block, world_block]"
      and env = android_device and u = "''/sdcard/a.png''"
      and uri = "Uri_fromFile ''/sdcard/a.png''" and img = 1
      and d = "''AAAA''" and bytes = "[0, 0, 0]" and bmp = 1, OF len(1)]
  note run1 = android_confidence_fallback [where i = 1 and blocks = "[hello_block, world_block]"
      and env = android_device and u = "''/sdcard/a.png''"
      and uri = "Uri_fromFile ''/sdcard/a.png''" and img = 1
      and d = "''AAAA''" and bytes = "[0, 0, 0]" and bmp = 1, OF len(2)]
  from run0 path c0 obtain rs where rs:
    "fst (android_extractTextFromImageWithDetails android_device ''/sdcard/a.png'') = Resolved rs"
    "rt_confidence (rs ! 0) = 1 / 2"
    by blast
  from run1 path c1 obtain rs' where rs':
    "fst (android_extractTextFromImageWithDetails android_device ''/sdcard/a.png'') = Resolved rs'"
    "rt_confidence (rs' ! 1) = 0.9"
    by blast
  from rs(1) rs'(1) have same: "rs' = rs"
    by simp
  from run0 payload c0 obtain ds where ds:
    "fst (android_extractTextFromImageDataWithDetails android_device ''AAAA'') = Resolved ds"
    "rt_confidence (ds ! 0) = 1 / 2"
    by blast
  from run1 payload c1 obtain ds' where ds':
    "fst (android_extractTextFromImageDataWithDetails android_device ''AAAA'') = Resolved ds'"
    "rt_confidence (ds' ! 1) = 0.9"
    by blast
  from ds(1) ds'(1) have same': "ds' = ds"
    by simp
  from c0 c1 rs rs'(2) ds ds'(2) same same' show ?thesis
    by blast
qed

lemma android_device_decode: "Base64_decode android_device ''AAAA'' = Inr [0, 0, 0]"
  by (simp add: android_device_def)

lemma android_device_bitmap: "decodeByteArray android_device [0, 0, 0] = Some 1"
  by (simp add: android_device_def)

lemma android_device_fromBitmap: "fromBitmap android_device b = b"
  by (simp add: android_device_def)

lemma iphone_file: "Data_contentsOf iphone ''/a.png'' = Inr [1]"
  by (simp add: iphone_def)

lemma iphone_payload: "Data_base64Encoded iphone ''AQ=='' = Some [1]"
  by (simp add: iphone_def)

lemma iphone_image: "UIImage_cgImage iphone [1] = Some \<lparr>img_width = 200, img_height = 100\<rparr>"
  by (simp add: iphone_def)

lemma iphone_perform:
  "perform iphone \<lparr>img_width = 200, img_height = 100\<rparr>
     = Inr (Some [centre_observation, empty_observation])"
  by (simp add: iphone_def)

lemma observation_details_conv:
  "compactMap (observation_details cgImage) observations =
     map (\<lambda>observation.
            \<lparr>rt_text = vn_string (hd (topCandidates1 observation)),
             rt_confidence = vn_confidence (hd (topCandidates1 observation)),
             rt_boundingBox = normalizedToPixel (obs_boundingBox observation) cgImage\<rparr>)
         (filter (\<lambda>observation. topCandidates1 observation \<noteq> []) observations)"
  by (induction observations) (auto simp: observation_details_def split: list.splits)

section \<open>Bounding boxes of the detail operations\<close>

text \<open>
  C10. On both Android detail operations, a text block without bounding box does not make
  the call fail and gets no default rectangle: the call resolves with one entry per block,
  and the entry of such a block has \<^verbatim>\<open>x\<close>, \<^verbatim>\<open>y\<close>, \<^verbatim>\<open>width\<close> and \<^verbatim>\<open>height\<close> all null.
\<close>

theorem android_missing_box_is_null:
  assumes "i < length blocks" and "tb_boundingBox (blocks ! i) = None"
  shows "(open_uri env u = Inr uri \<and> fromFilePath env uri = Inr img
            \<and> process env img = Inr blocks \<longrightarrow>
          (\<exists>rs. fst (android_extractTextFromImageWithDetails env u) = Resolved rs
             \<and> length rs = length blocks
             \<and> rt_text (rs ! i) = tb_text (blocks ! i)
             \<and> rt_boundingBox (rs ! i) =
                 \<lparr>box_x = None, box_y = None, box_width = None, box_height = None\<rparr>))
       \<and> (Base64_decode env d = Inr bytes \<and> decodeByteArray env bytes = Some bmp
            \<and> process env (fromBitmap env bmp) = Inr blocks \<longrightarrow>
          (\<exists>rs. fst (android_extractTextFromImageDataWithDetails env d) = Resolved rs
             \<and> length rs = length blocks
             \<and> rt_text (rs ! i) = tb_text (blocks ! i)
             \<and> rt_boundingBox (rs ! i) =
                 \<lparr>box_x = None, box_y = None, box_width = None, box_height = None\<rparr>))"
  using assms
  by (simp add: android_file_details_run android_data_details_run block_details_def)

theorem android_missing_box_is_null_witness:
  "tb_boundingBox ([hello_block, world_block] ! 1) = None
   \<and> (\<exists>rs. fst (android_extractTextFromImageWithDetails android_device ''/sdcard/a.png'')
            = Resolved rs
        \<and> rt_boundingBox (rs ! 1) =
            \<lparr>box_x = None, box_y = None, box_width = None, box_height = None\<rparr>)
   \<and> (\<exists>rs. fst (android_extractTextFromImageDataWithDetails android_device ''AAAA'')
            = Resolved rs
        \<and> rt_boundingBox (rs ! 1) =
            \<lparr>box_x = None, box_y = None, box_width = None, box_height = None\<rparr>)"
proof -
  have box: "tb_boundingBox ([hello_block, world_block] ! 1) = None"
    by (simp add: world_block_def)
  have len: "1 < length [hello_block, world_block]"
    by simp
  note run = android_missing_box_is_null [OF len box, of android_device "''/sdcard/a.png''"
      "Uri_fromFile ''/sdcard/a.png''" 1 "''AAAA''" "[0, 0, 0]" 1]
  from run have "\<exists>rs. fst (android_extractTextFromImageWithDetails android_device ''/sdcard/a.png'')
            = Resolved rs
        \<and> rt_boundingBox (rs ! 1) =
            \<lparr>box_x = None, box_y = None, box_width = None, box_height = None\<rparr>"
    using android_device_open android_device_image android_device_blocks by blast
  moreover from run
  have "\<exists>rs. fst (android_extractTextFromImageDataWithDetails android_device ''AAAA'')
            = Resolved rs
        \<and> rt_boundingBox (rs ! 1) =
            \<lparr>box_x = None, box_y = None, box_width = None, box_height = None\<rparr>"
    using android_device_decode android_device_bitmap android_device_blocks
    by (simp add: android_device_fromBitmap) blast
  ultimately show ?thesis using box by blast
qed

text \<open>
  C1, as the code has it. Each entry of a detail call carries a box with the four fields
  \<^verbatim>\<open>x\<close>, \<^verbatim>\<open>y\<close>, \<^verbatim>\<open>width\<close>, \<^verbatim>\<open>height\<close>, in pixels with the origin at the top left.
  On Android the native rectangle of a block is passed through: \<^verbatim>\<open>x = left\<close>,
  \<^verbatim>\<open>y = top\<close>, \<^verbatim>\<open>width = right - left\<close>, \<^verbatim>\<open>height = bottom - top\<close>; a block that has
  no native rectangle gets the four fields null. On iOS the normalised bottom-left
  rectangle \<^verbatim>\<open>{x, y, w, h}\<close> of every observation that is returned becomes
  \<^verbatim>\<open>x * W\<close>, \<^verbatim>\<open>(1 - y - h) * H\<close>, \<^verbatim>\<open>w * W\<close>, \<^verbatim>\<open>h * H\<close> for the image size
  \<^verbatim>\<open>W\<close> by \<^verbatim>\<open>H\<close>.
\<close>

theorem detail_boundingBox_pixel_space:
  "(open_uri env u = Inr uri \<and> fromFilePath env uri = Inr img
      \<and> process env img = Inr blocks \<longrightarrow>
    (\<exists>rs. fst (android_extractTextFromImageWithDetails env u) = Resolved rs
       \<and> length rs = length blocks
       \<and> (\<forall>i<length blocks.
             rt_boundingBox (rs ! i) =
               (case tb_boundingBox (blocks ! i) of
                  Some r \<Rightarrow>
                    \<lparr>box_x = Some (rect_left r), box_y = Some (rect_top r),
                     box_width = Some (rect_right r - rect_left r),
                     box_height = Some (rect_bottom r - rect_top r)\<rparr>
                | None \<Rightarrow>
                    \<lparr>box_x = None, box_y = None, box_width = None, box_height = None\<rparr>))))
   \<and> (Base64_decode env d = Inr bytes \<and> decodeByteArray env bytes = Some bmp
      \<and> process env (fromBitmap env bmp) = Inr blocks' \<longrightarrow>
    (\<exists>rs. fst (android_extractTextFromImageDataWithDetails env d) = Resolved rs
       \<and> length rs = length blocks'
       \<and> (\<forall>i<length blocks'.
             rt_boundingBox (rs ! i) =
               (case tb_boundingBox (blocks' ! i) of
                  Some r \<Rightarrow>
                    \<lparr>box_x = Some (rect_left r), box_y = Some (rect_top r),
                     box_width = Some (rect_right r - rect_left r),
                     box_height = Some (rect_bottom r - rect_top r)\<rparr>
                | None \<Rightarrow>
                    \<lparr>box_x = None, box_y = None, box_width = None, box_height = None\<rparr>))))
   \<and> (Data_contentsOf ios url = Inr imageData \<and> UIImage_cgImage ios imageData = Some cgImage
      \<and> perform ios cgImage = Inr (Some observations) \<longrightarrow>
    (\<exists>rs. fst (ios_extractTextFromImageWithDetails ios url) = Resolved rs
       \<and> map rt_boundingBox rs =
           map (\<lambda>observation.
                  \<lparr>box_x = cg_origin_x (obs_boundingBox observation) * real (img_width cgImage),
                   box_y = (1 - cg_origin_y (obs_boundingBox observation)
                              - cg_height (obs_boundingBox observation))
                           * real (img_height cgImage),
                   box_width = cg_width (obs_boundingBox observation) * real (img_width cgImage),
                   box_height =
                     cg_height (obs_boundingBox observation) * real (img_height cgImage)\<rparr>)
               (filter (\<lambda>observation. topCandidates1 observation \<noteq> []) observations)))
   \<and> (Data_base64Encoded ios base64Data = Some imageData'
      \<and> UIImage_cgImage ios imageData' = Some cgImage'
      \<and> perform ios cgImage' = Inr (Some observations') \<longrightarrow>
    (\<exists>rs. fst (ios_extractTextFromImageDataWithDetails ios base64Data) = Resolved rs
       \<and> map rt_boundingBox rs =
           map (\<lambda>observation.
                  \<lparr>box_x = cg_origin_x (obs_boundingBox observation) * real (img_width cgImage'),
                   box_y = (1 - cg_origin_y (obs_boundingBox observation)
                              - cg_height (obs_boundingBox observation))
                           * real (img_height cgImage'),
                   box_width = cg_width (obs_boundingBox observation) * real (img_width cgImage'),
                   box_height =
                     cg_height (obs_boundingBox observation) * real (img_height cgImage')\<rparr>)
               (filter (\<lambda>observation. topCandidates1 observation \<noteq> []) observations')))"
proof (intro conjI impI)
  assume "open_uri env u = Inr uri \<and> fromFilePath env uri = Inr img
      \<and> process env img = Inr blocks"
  then show "\<exists>rs. fst (android_extractTextFromImageWithDetails env u) = Resolved rs
       \<and> length rs = length blocks
       \<and> (\<forall>i<length blocks.
             rt_boundingBox (rs ! i) =
               (case tb_boundingBox (blocks ! i) of
                  Some r \<Rightarrow>
                    \<lparr>box_x = Some (rect_left r), box_y = Some (rect_top r),
                     box_width = Some (rect_right r - rect_left r),
                     box_height = Some (rect_bottom r - rect_top r)\<rparr>
                | None \<Rightarrow>
                    \<lparr>box_x = None, box_y = None, box_width = None, box_height = None\<rparr>))"
    by (simp add: android_file_details_run block_details_def rect_width_def rect_height_def
        split: option.split)
next
  assume "Base64_decode env d = Inr bytes \<and> decodeByteArray env bytes = Some bmp
      \<and> process env (fromBitmap env bmp) = Inr blocks'"
  then show "\<exists>rs. fst (android_extractTextFromImageDataWithDetails env d) = Resolved rs
       \<and> length rs = length blocks'
       \<and> (\<forall>i<length blocks'.
             rt_boundingBox (rs ! i) =
               (case tb_boundingBox (blocks' ! i) of
                  Some r \<Rightarrow>
                    \<lparr>box_x = Some (rect_left r), box_y = Some (rect_top r),
                     box_width = Some (rect_right r - rect_left r),
                     box_height = Some (rect_bottom r - rect_top r)\<rparr>
                | None \<Rightarrow>
                    \<lparr>box_x = None, box_y = None, box_width = None, box_height = None\<rparr>))"
    by (simp add: android_data_details_run block_details_def rect_width_def rect_height_def
        split: option.split)
next
  assume "Data_contentsOf ios url = Inr imageData \<and> UIImage_cgImage ios imageData = Some cgImage
      \<and> perform ios cgImage = Inr (Some observations)"
  then show "\<exists>rs. fst (ios_extractTextFromImageWithDetails ios url) = Resolved rs
       \<and> map rt_boundingBox rs =
           map (\<lambda>observation.
                  \<lparr>box_x = cg_origin_x (obs_boundingBox observation) * real (img_width cgImage),
                   box_y = (1 - cg_origin_y (obs_boundingBox observation)
                              - cg_height (obs_boundingBox observation))
                           * real (img_height cgImage),
                   box_width = cg_width (obs_boundingBox observation) * real (img_width cgImage),
                   box_height =
                     cg_height (obs_boundingBox observation) * real (img_height cgImage)\<rparr>)
               (filter (\<lambda>observation. topCandidates1 observation \<noteq> []) observations)"
    by (simp add: ios_file_details_run observation_details_conv normalizedToPixel_def Let_def o_def)
next
  assume "Data_base64Encoded ios base64Data = Some imageData'
      \<and> UIImage_cgImage ios imageData' = Some cgImage'
      \<and> perform ios cgImage' = Inr (Some observations')"
  then show "\<exists>rs. fst (ios_extractTextFromImageDataWithDetails ios base64Data) = Resolved rs
       \<and> map rt_boundingBox rs =
           map (\<lambda>observation.
                  \<lparr>box_x = cg_origin_x (obs_boundingBox observation) * real (img_width cgImage'),
                   box_y = (1 - cg_origin_y (obs_boundingBox observation)
                              - cg_height (obs_boundingBox observation))
                           * real (img_height cgImage'),
                   box_width = cg_width (obs_boundingBox observation) * real (img_width cgImage'),
                   box_height =
                     cg_height (obs_boundingBox observation) * real (img_height cgImage')\<rparr>)
               (filter (\<lambda>observation. topCandidates1 observation \<noteq> []) observations')"
    by (simp add: ios_data_details_run observation_details_conv normalizedToPixel_def Let_def o_def)
qed

theorem detail_boundingBox_pixel_space_witness:
  "(\<exists>rs. fst (android_extractTextFromImageWithDetails android_device ''/sdcard/a.png'')
          = Resolved rs
      \<and> rt_boundingBox (rs ! 0) =
          \<lparr>box_x = Some 10, box_y = Some 20, box_width = Some 100, box_height = Some 30\<rparr>
      \<and> rt_boundingBox (rs ! 1) =
          \<lparr>box_x = None, box_y = None, box_width = None, box_height = None\<rparr>)
   \<and> (\<exists>rs. fst (android_extractTextFromImageDataWithDetails android_device ''AAAA'')
          = Resolved rs
      \<and> rt_boundingBox (rs ! 0) =
          \<lparr>box_x = Some 10, box_y = Some 20, box_width = Some 100, box_height = Some 30\<rparr>
      \<and> rt_boundingBox (rs ! 1) =
          \<lparr>box_x = None, box_y = None, box_width = None, box_height = None\<rparr>)
   \<and> (\<exists>rs. fst (ios_extractTextFromImageWithDetails iphone ''/a.png'') = Resolved rs
      \<and> map rt_boundingBox rs =
          [\<lparr>box_x = 50, box_y = 25, box_width = 100, box_height = 50\<rparr>])
   \<and> (\<exists>rs. fst (ios_extractTextFromImageDataWithDetails iphone ''AQ=='') = Resolved rs
      \<and> map rt_boundingBox rs =
          [\<lparr>box_x = 50, box_y = 25, box_width = 100, box_height = 50\<rparr>])"
proof -
  note run = detail_boundingBox_pixel_space [where env = android_device
      and u = "''/sdcard/a.png''" and uri = "Uri_fromFile ''/sdcard/a.png''" and img = 1
      and blocks = "[hello_block, world_block]"
      and d = "''AAAA''" and bytes = "[0, 0, 0]" and bmp = 1
      and blocks' = "[hello_block, world_block]"
      and ios = iphone and url = "''/a.png''" and imageData = "[1]"
      and cgImage = "\<lparr>img_width = 200, img_height = 100\<rparr>"
      and observations = "[centre_observation, empty_observation]"
      and base64Data = "''AQ==''" and imageData' = "[1]"
      and cgImage' = "\<lparr>img_width = 200, img_height = 100\<rparr>"
      and observations' = "[centre_observation, empty_observation]"]
  have box0: "tb_boundingBox ([hello_block, world_block] ! 0) =
      Some \<lparr>rect_left = 10, rect_top = 20, rect_right = 110, rect_bottom = 50\<rparr>"
    by (simp add: hello_block_def)
  have box1: "tb_boundingBox ([hello_block, world_block] ! 1) = None"
    by (simp add: world_block_def)
  have len: "0 < length [hello_block, world_block]" "1 < length [hello_block, world_block]"
    by simp_all
  from run obtain rs where a:
    "fst (android_extractTextFromImageWithDetails android_device ''/sdcard/a.png'') = Resolved rs"
    "\<forall>i<length [hello_block, world_block].
       rt_boundingBox (rs ! i) =
         (case tb_boundingBox ([hello_block, world_block] ! i) of
            Some r \<Rightarrow>
              \<lparr>box_x = Some (rect_left r), box_y = Some (rect_top r),
               box_width = Some (rect_right r - rect_left r),
               box_height = Some (rect_bottom r - rect_top r)\<rparr>
          | None \<Rightarrow> \<lparr>box_x = None, box_y = None, box_width = None, box_height = None\<rparr>)"
    using android_device_open android_device_image android_device_blocks by blast
  from a(2) len(1) have "rt_boundingBox (rs ! 0) =
      (case tb_boundingBox ([hello_block, world_block] ! 0) of
         Some r \<Rightarrow>
           \<lparr>box_x = Some (rect_left r), box_y = Some (rect_top r),
            box_width = Some (rect_right r - rect_left r),
            box_height = Some (rect_bottom r - rect_top r)\<rparr>
       | None \<Rightarrow> \<lparr>box_x = None, box_y = None, box_width = None, box_height = None\<rparr>)"
    by blast
  with box0 have a0: "rt_boundingBox (rs ! 0) =
      \<lparr>box_x = Some 10, box_y = Some 20, box_width = Some 100, box_height = Some 30\<rparr>"
    by simp
  from a(2) len(2) have "rt_boundingBox (rs ! 1) =
      (case tb_boundingBox ([hello_block, world_block] ! 1) of
         Some r \<Rightarrow>
           \<lparr>box_x = Some (rect_left r), box_y = Some (rect_top r),
            box_width = Some (rect_right r - rect_left r),
            box_height = Some (rect_bottom r - rect_top r)\<rparr>
       | None \<Rightarrow> \<lparr>box_x = None, box_y = None, box_width = None, box_height = None\<rparr>)"
    by blast
  with box1 have a1: "rt_boundingBox (rs ! 1) =
      \<lparr>box_x = None, box_y = None, box_width = None, box_height = None\<rparr>"
    by simp
  have payload: "Base64_decode android_device ''AAAA'' = Inr [0, 0, 0]
      \<and> decodeByteArray android_device [0, 0, 0] = Some 1
      \<and> process android_device (fromBitmap android_device 1) = Inr [hello_block, world_block]"
    by (simp add: android_device_def)
  from run payload obtain rs' where b:
    "fst (android_extractTextFromImageDataWithDetails android_device ''AAAA'') = Resolved rs'"
    "\<forall>i<length [hello_block, world_block].
       rt_boundingBox (rs' ! i) =
         (case tb_boundingBox ([hello_block, world_block] ! i) of
            Some r \<Rightarrow>
              \<lparr>box_x = Some (rect_left r), box_y = Some (rect_top r),
               box_width = Some (rect_right r - rect_left r),
               box_height = Some (rect_bottom r - rect_top r)\<rparr>
          | None \<Rightarrow> \<lparr>box_x = None, box_y = None, box_width = None, box_height = None\<rparr>)"
    by blast
  from b(2) len(1) have "rt_boundingBox (rs' ! 0) =
      (case tb_boundingBox ([hello_block, world_block] ! 0) of
         Some r \<Rightarrow>
           \<lparr>box_x = Some (rect_left r), box_y = Some (rect_top r),
            box_width = Some (rect_right r - rect_left r),
            box_height = Some (rect_bottom r - rect_top r)\<rparr>
       | None \<Rightarrow> \<lparr>box_x = None, box_y = None, box_width = None, box_height = None\<rparr>)"
    by blast
  with box0 have b0: "rt_boundingBox (rs' ! 0) =
      \<lparr>box_x = Some 10, box_y = Some 20, box_width = Some 100, box_height = Some 30\<rparr>"
    by simp
  from b(2) len(2) have "rt_boundingBox (rs' ! 1) =
      (case tb_boundingBox ([hello_block, world_block] ! 1) of
         Some r \<Rightarrow>
           \<lparr>box_x = Some (rect_left r), box_y = Some (rect_top r),
            box_width = Some (rect_right r - rect_left r),
            box_height = Some (rect_bottom r - rect_top r)\<rparr>
       | None \<Rightarrow> \<lparr>box_x = None, box_y = None, box_width = None, box_height = None\<rparr>)"
    by blast
  with box1 have b1: "rt_boundingBox (rs' ! 1) =
      \<lparr>box_x = None, box_y = None, box_width = None, box_height = None\<rparr>"
    by simp
  from run have c: "\<exists>rs. fst (ios_extractTextFromImageWithDetails iphone ''/a.png'') = Resolved rs
      \<and> map rt_boundingBox rs =
          [\<lparr>box_x = 50, box_y = 25, box_width = 100, box_height = 50\<rparr>]"
    using iphone_file iphone_image iphone_perform
    by (simp add: centre_observation_def empty_observation_def)
  from run have d: "\<exists>rs. fst (ios_extractTextFromImageDataWithDetails iphone ''AQ=='') = Resolved rs
      \<and> map rt_boundingBox rs =
          [\<lparr>box_x = 50, box_y = 25, box_width = 100, box_height = 50\<rparr>]"
    using iphone_payload iphone_image iphone_perform
    by (simp add: centre_observation_def empty_observation_def)
  from a(1) a0 a1 b(1) b0 b1 c d show ?thesis by blast
qed

text \<open>C1 as stated gives every entry a pixel rectangle; on Android the entry of a block
  without native rectangle has four null fields.\<close>

theorem detail_boundingBox_counterexample:
  "tb_boundingBox world_block = None
   \<and> extractTextFromImageWithDetails (android_module android_device) ''file:///sdcard/a.png'' =
       (Resolved
          [\<lparr>rt_text = ''Hello'', rt_confidence = 0.5,
            rt_boundingBox =
              \<lparr>box_x = Some 10, box_y = Some 20, box_width = Some 100, box_height = Some 30\<rparr>\<rparr>,
           \<lparr>rt_text = ''World'', rt_confidence = 0.9,
            rt_boundingBox =
              \<lparr>box_x = None, box_y = None, box_width = None, box_height = None\<rparr>\<rparr>],
        [1])"
  by (simp add: extractTextFromImageWithDetails_def android_module_def
      android_extractTextFromImageWithDetails_def open_uri_def android_device_def
      block_details_def hello_block_def world_block_def orElse_def rect_width_def
      rect_height_def Let_def)

section \<open>The coordinate normaliser at concrete sizes\<close>

text \<open>
  C2, as the code has it. For the normalised rectangle \<^verbatim>\<open>{x: 0.25, y: 0.25, width: 0.5,
  height: 0.5}\<close> on an image of size 200 by 100 the normaliser yields the pixel rectangle
  \<^verbatim>\<open>{x: 50, y: 25, width: 100, height: 50}\<close>: the flipped \<^verbatim>\<open>y\<close> is
  \<^verbatim>\<open>(1 - 0.25 - 0.5) * 100 = 25\<close>. All values involved are dyadic, so floating point
  computes them without rounding.
\<close>

theorem normalizer_example:
  "normalizedToPixel
     \<lparr>cg_origin_x = 0.25, cg_origin_y = 0.25, cg_width = 0.5, cg_height = 0.5\<rparr>
     \<lparr>img_width = 200, img_height = 100\<rparr>
   = \<lparr>box_x = 50, box_y = 25, box_width = 100, box_height = 50\<rparr>"
  by (simp add: normalizedToPixel_def)

text \<open>C2 as stated asks for \<^verbatim>\<open>y = 0\<close>; the normaliser does not return that rectangle.\<close>

theorem normalizer_example_counterexample:
  "normalizedToPixel
     \<lparr>cg_origin_x = 0.25, cg_origin_y = 0.25, cg_width = 0.5, cg_height = 0.5\<rparr>
     \<lparr>img_width = 200, img_height = 100\<rparr>
   \<noteq> \<lparr>box_x = 50, box_y = 0, box_width = 100, box_height = 50\<rparr>"
  by (simp add: normalizedToPixel_def)

section \<open>The uri handed to the native module\<close>

lemma String_replace_absent:
  "\<not> sublist pat s \<Longrightarrow> String_replace s pat rep = s"
  by (induction s) (auto simp: sublist_Cons_right)

lemma String_replace_first:
  "\<forall>k<length pre. \<not> prefix pat (drop k (pre @ pat @ post)) \<Longrightarrow>
   String_replace (pre @ pat @ post) pat rep = pre @ rep @ post"
proof (induction pre)
  case Nil
  show ?case
  proof (cases "pat @ post")
    case Nil
    then show ?thesis by simp
  next
    case (Cons a list)
    have "prefix pat (a # list)"
      unfolding Cons [symmetric] by simp
    moreover have "drop (length pat) (a # list) = post"
      unfolding Cons [symmetric] by simp
    ultimately show ?thesis
      using Cons by simp
  qed
next
  case (Cons a pre)
  from Cons.prems have "\<not> prefix pat (drop 0 ((a # pre) @ pat @ post))"
    by blast
  then have head: "\<not> prefix pat (a # pre @ pat @ post)"
    by simp
  have "\<forall>k<length pre. \<not> prefix pat (drop k (pre @ pat @ post))"
  proof (intro allI impI)
    fix k assume "k < length pre"
    then have "Suc k < length (a # pre)" by simp
    with Cons.prems have "\<not> prefix pat (drop (Suc k) ((a # pre) @ pat @ post))"
      by blast
    then show "\<not> prefix pat (drop k (pre @ pat @ post))" by simp
  qed
  with Cons.IH have "String_replace (pre @ pat @ post) pat rep = pre @ rep @ post"
    by blast
  with head show ?case by simp
qed

text \<open>
  C9. \<^verbatim>\<open>extractTextFromImage\<close> and \<^verbatim>\<open>extractTextFromImageWithDetails\<close> hand the native
  module the uri with the first occurrence of \<^verbatim>\<open>file://\<close> removed, wherever it stands:
  if the occurrence after \<open>pre\<close> is the first one (none begins at an index below the
  length of \<open>pre\<close>), the module receives \<open>pre\<close> followed by the rest \<open>post\<close>, in which later
  occurrences stay. A uri that does not contain \<^verbatim>\<open>file://\<close> is handed over as it is.
\<close>

theorem file_scheme_first_occurrence_removed:
  "(\<not> sublist ''file://'' uri \<longrightarrow>
      extractTextFromImage m uri = native_extractTextFromImage m uri
    \<and> extractTextFromImageWithDetails m uri = native_extractTextFromImageWithDetails m uri)
   \<and> ((\<forall>k<length pre. \<not> prefix ''file://'' (drop k (pre @ ''file://'' @ post))) \<longrightarrow>
      extractTextFromImage m (pre @ ''file://'' @ post) = native_extractTextFromImage m (pre @ post)
    \<and> extractTextFromImageWithDetails m (pre @ ''file://'' @ post) =
        native_extractTextFromImageWithDetails m (pre @ post))"
proof (intro conjI impI)
  assume "\<not> sublist ''file://'' uri"
  then have "String_replace uri ''file://'' [] = uri"
    by (rule String_replace_absent)
  then show "extractTextFromImage m uri = native_extractTextFromImage m uri"
    and "extractTextFromImageWithDetails m uri = native_extractTextFromImageWithDetails m uri"
    by (simp_all add: extractTextFromImage_def extractTextFromImageWithDetails_def)
next
  assume "\<forall>k<length pre. \<not> prefix ''file://'' (drop k (pre @ ''file://'' @ post))"
  then have "String_replace (pre @ ''file://'' @ post) ''file://'' [] = pre @ [] @ post"
    by (rule String_replace_first)
  then show "extractTextFromImage m (pre @ ''file://'' @ post) =
      native_extractTextFromImage m (pre @ post)"
    and "extractTextFromImageWithDetails m (pre @ ''file://'' @ post) =
      native_extractTextFromImageWithDetails m (pre @ post)"
    by (simp_all add: extractTextFromImage_def extractTextFromImageWithDetails_def)
qed

theorem file_scheme_first_occurrence_removed_witness:
  "\<not> sublist ''file://'' ''/sdcard/a.png''
   \<and> extractTextFromImage echo_module ''/sdcard/a.png'' = ''/sdcard/a.png''
   \<and> extractTextFromImageWithDetails echo_module ''/sdcard/a.png'' = ''/sdcard/a.png''
   \<and> \<not> prefix ''file://'' (drop 0 (''a:'' @ ''file://'' @ ''/b/file://c''))
   \<and> \<not> prefix ''file://'' (drop 1 (''a:'' @ ''file://'' @ ''/b/file://c''))
   \<and> extractTextFromImage echo_module ''a:file:///b/file://c'' = ''a:/b/file://c''
   \<and> extractTextFromImageWithDetails echo_module ''a:file:///b/file://c'' = ''a:/b/file://c''"
proof -
  have absent: "\<not> sublist ''file://'' ''/sdcard/a.png''"
    by (simp add: sublist_Cons_right)
  have first: "\<forall>k<length ''a:''. \<not> prefix ''file://'' (drop k (''a:'' @ ''file://'' @ ''/b/file://c''))"
    by (simp add: less_Suc_eq)
  from absent first
    file_scheme_first_occurrence_removed [of "''/sdcard/a.png''" echo_module "''a:''" "''/b/file://c''"]
  show ?thesis
    by (simp add: echo_module_def)
qed

section \<open>The minConfidence post-filter\<close>

text \<open>
  C5. With a \<^verbatim>\<open>minConfidence\<close> threshold in the options, the post-filter drops every entity
  whose confidence is below the threshold and keeps every entity at or above it, in the
  original order. With \<^verbatim>\<open>minConfidence = 0.9\<close> and confidences 0.95, 0.5, 0.99 it keeps
  exactly the first and the third entity, in that order.
\<close>

theorem minConfidence_post_filter:
  assumes "opt_minConfidence options = Some t"
  shows "applyMinConfidence options confidence entities
           = filter (\<lambda>e. t \<le> confidence e) entities
       \<and> (\<forall>e \<in> set entities. confidence e < t \<longrightarrow>
             e \<notin> set (applyMinConfidence options confidence entities))
       \<and> (\<forall>e \<in> set entities. t \<le> confidence e \<longrightarrow>
             e \<in> set (applyMinConfidence options confidence entities))
       \<and> subseq (applyMinConfidence options confidence entities) entities
       \<and> applyMinConfidence (options\<lparr>opt_minConfidence := Some 0.9\<rparr>) snd
             [(a, 0.95), (b, 0.5), (c, 0.99)] = [(a, 0.95), (c, 0.99)]"
  using assms by (auto simp: applyMinConfidence_def)

theorem minConfidence_post_filter_witness:
  "opt_minConfidence options_090 = Some 0.9
   \<and> applyMinConfidence options_090 snd [(''first'', 0.95), (''second'', 0.5), (''third'', 0.99)]
       = [(''first'', 0.95), (''third'', 0.99)]"
proof -
  have t: "opt_minConfidence options_090 = Some 0.9"
    by (simp add: options_090_def)
  from minConfidence_post_filter [OF t, of snd "[(''first'', 0.95), (''second'', 0.5), (''third'', 0.99)]"]
  have "applyMinConfidence options_090 snd [(''first'', 0.95), (''second'', 0.5), (''third'', 0.99)]
       = filter (\<lambda>e. 0.9 \<le> snd e) [(''first'', 0.95), (''second'', 0.5), (''third'', 0.99)]"
    by (rule conjunct1)
  with t show ?thesis by simp
qed



section \<open>The simple file operation\<close>

lemma ios_file_run:
  assumes "Data_contentsOf env u = Inr bytes" and "UIImage_cgImage env bytes = Some cgImage"
    and "perform env cgImage = Inr (Some observations)"
  shows "ios_extractTextFromImage env u =
           (Resolved (compactMap top_string observations), [cgImage])"
  using assms by (simp add: ios_extractTextFromImage_def)

lemma top_string_conv:
  "compactMap top_string observations =
     map (\<lambda>observation. vn_string (hd (topCandidates1 observation)))
         (filter (\<lambda>observation. topCandidates1 observation \<noteq> []) observations)"
  by (induction observations) (auto simp: top_string_def split: list.splits)

text \<open>
  C7, as the code has it. For a valid image (every platform call succeeds) on Android,
  \<^verbatim>\<open>extractTextFromImage(uri)\<close> resolves with the texts of the detected blocks, one entry
  per block, in the order of the SDK. On iOS it resolves with the top candidate's string of
  every observation that has a candidate, in the order of the SDK; an observation without
  candidate gets no entry, so the sequence is at most as long as the list of observations,
  and as long when every observation has a candidate. Each entry is the SDK's own text.
\<close>

theorem extractTextFromImage_entries:
  "(open_uri env (String_replace uri ''file://'' []) = Inr file
      \<and> fromFilePath env file = Inr img \<and> process env img = Inr blocks \<longrightarrow>
    (\<exists>ts. fst (extractTextFromImage (android_module env) uri) = Resolved ts
       \<and> length ts = length blocks
       \<and> (\<forall>i<length blocks. ts ! i = tb_text (blocks ! i))))
   \<and> (Data_contentsOf ios (String_replace uri' ''file://'' []) = Inr imageData
      \<and> UIImage_cgImage ios imageData = Some cgImage
      \<and> perform ios cgImage = Inr (Some observations) \<longrightarrow>
    (\<exists>ts. fst (extractTextFromImage (ios_module ios) uri') = Resolved ts
       \<and> ts = map (\<lambda>observation. vn_string (hd (topCandidates1 observation)))
                (filter (\<lambda>observation. topCandidates1 observation \<noteq> []) observations)
       \<and> length ts \<le> length observations
       \<and> ((\<forall>observation \<in> set observations. topCandidates1 observation \<noteq> []) \<longrightarrow>
            length ts = length observations)))"
proof (intro conjI impI)
  assume "open_uri env (String_replace uri ''file://'' []) = Inr file
      \<and> fromFilePath env file = Inr img \<and> process env img = Inr blocks"
  then have "android_extractTextFromImage env (String_replace uri ''file://'' [])
      = (Resolved (map tb_text blocks), [img])"
    by (simp add: android_file_run)
  then show "\<exists>ts. fst (extractTextFromImage (android_module env) uri) = Resolved ts
       \<and> length ts = length blocks
       \<and> (\<forall>i<length blocks. ts ! i = tb_text (blocks ! i))"
    by (simp add: extractTextFromImage_def android_module_def)
next
  assume "Data_contentsOf ios (String_replace uri' ''file://'' []) = Inr imageData
      \<and> UIImage_cgImage ios imageData = Some cgImage
      \<and> perform ios cgImage = Inr (Some observations)"
  then have "ios_extractTextFromImage ios (String_replace uri' ''file://'' [])
      = (Resolved (compactMap top_string observations), [cgImage])"
    by (simp add: ios_file_run)
  moreover have "(\<forall>observation \<in> set observations. topCandidates1 observation \<noteq> []) \<longrightarrow>
      filter (\<lambda>observation. topCandidates1 observation \<noteq> []) observations = observations"
    by simp
  ultimately show "\<exists>ts. fst (extractTextFromImage (ios_module ios) uri') = Resolved ts
       \<and> ts = map (\<lambda>observation. vn_string (hd (topCandidates1 observation)))
                (filter (\<lambda>observation. topCandidates1 observation \<noteq> []) observations)
       \<and> length ts \<le> length observations
       \<and> ((\<forall>observation \<in> set observations. topCandidates1 observation \<noteq> []) \<longrightarrow>
            length ts = length observations)"
    by (simp add: extractTextFromImage_def ios_module_def top_string_conv)
qed

theorem extractTextFromImage_entries_witness:
  "fst (extractTextFromImage (android_module android_device) ''file:///sdcard/a.png'')
     = Resolved [''Hello'', ''World'']
   \<and> fst (extractTextFromImage (ios_module iphone) ''file:///a.png'') = Resolved [''Hi'']"
proof -
  have strip: "String_replace ''file:///sdcard/a.png'' ''file://'' [] = ''/sdcard/a.png''"
    "String_replace ''file:///a.png'' ''file://'' [] = ''/a.png''"
    by simp_all
  note run = extractTextFromImage_entries [of android_device "''file:///sdcard/a.png''"
      "Uri_fromFile ''/sdcard/a.png''" 1 "[hello_block, world_block]"
      iphone "''file:///a.png''" "[1]" "\<lparr>img_width = 200, img_height = 100\<rparr>"
      "[centre_observation, empty_observation]"]
  from run obtain ts where a:
    "fst (extractTextFromImage (android_module android_device) ''file:///sdcard/a.png'')
       = Resolved ts"
    "length ts = length [hello_block, world_block]"
    "\<forall>i<length [hello_block, world_block]. ts ! i = tb_text ([hello_block, world_block] ! i)"
    using android_device_open android_device_image android_device_blocks strip by auto
  from a(2) obtain t0 t1 where ts: "ts = [t0, t1]"
    by (cases ts; cases "tl ts") auto
  from a(3) have "ts ! 0 = ''Hello''" "ts ! 1 = ''World''"
    by (simp_all add: hello_block_def world_block_def)
  with ts have "ts = [''Hello'', ''World'']"
    by simp
  moreover from run
  have "fst (extractTextFromImage (ios_module iphone) ''file:///a.png'') = Resolved [''Hi'']"
    using iphone_file iphone_image iphone_perform strip
    by (simp add: centre_observation_def empty_observation_def)
  ultimately show ?thesis using a(1) by simp
qed

text \<open>C7 as stated asks for one entry per detected region; on iOS an observation without
  candidate is dropped: two observations, one entry.\<close>

theorem extractTextFromImage_entries_counterexample:
  "perform iphone \<lparr>img_width = 200, img_height = 100\<rparr>
     = Inr (Some [centre_observation, empty_observation])
   \<and> fst (extractTextFromImage (ios_module iphone) ''file:///a.png'') = Resolved [''Hi'']
   \<and> length [''Hi''] \<noteq> length [centre_observation, empty_observation]"
  by (simp add: extractTextFromImage_def ios_module_def ios_extractTextFromImage_def iphone_def
      top_string_def centre_observation_def empty_observation_def)



section \<open>Rejections\<close>

text \<open>
  C3, as the code has it. An input that names a missing or unreadable file, or carries a
  payload that is not base64 or does not decode to an image, is rejected before the
  recogniser is called (the list of recogniser calls is empty); it never resolves. The
  kind of the rejection is
  \<^item> on Android \<^verbatim>\<open>UNKNOWN_ERROR\<close> for a path (not a \<^verbatim>\<open>content://\<close> uri) of no existing
    file, with the message \<^verbatim>\<open>File not found: <path>\<close> when the React context is there,
    and \<^verbatim>\<open>INVALID_IMAGE\<close> for a payload whose bytes are no image;
  \<^item> on iOS the error thrown by \<^verbatim>\<open>Data(contentsOf:)\<close> for a file that cannot be read,
    \<^verbatim>\<open>INVALID_IMAGE\<close> for a file that is no image (\<^verbatim>\<open>extractTextFromImageWithDetails\<close>),
    \<^verbatim>\<open>INVALID_BASE64\<close> for a payload that is not base64 and \<^verbatim>\<open>INVALID_IMAGE\<close> for a
    payload whose bytes are no image.
\<close>

theorem invalid_input_rejected_before_recognition:
  "(\<not> prefix ''content://'' p \<and> \<not> file_exists env p \<longrightarrow>
      (\<exists>e. android_extractTextFromImage env p = (Rejected e, [])
         \<and> ce_code e = ''UNKNOWN_ERROR''
         \<and> (reactContext env \<longrightarrow> ce_message e = Some (''File not found: '' @ p)))
    \<and> (\<exists>e. android_extractTextFromImageWithDetails env p = (Rejected e, [])
         \<and> ce_code e = ''UNKNOWN_ERROR''
         \<and> (reactContext env \<longrightarrow> ce_message e = Some (''File not found: '' @ p))))
   \<and> (open_uri env p' = Inr imageUri \<and> fromFilePath env imageUri = Inl err \<longrightarrow>
      (\<exists>e. android_extractTextFromImage env p' = (Rejected e, []))
    \<and> (\<exists>e. android_extractTextFromImageWithDetails env p' = (Rejected e, [])))
   \<and> (Base64_decode env d = Inl err' \<longrightarrow>
      (\<exists>e. android_extractTextFromImageData env d = (Rejected e, []))
    \<and> (\<exists>e. android_extractTextFromImageDataWithDetails env d = (Rejected e, [])))
   \<and> (Base64_decode env d' = Inr bytes \<and> decodeByteArray env bytes = None \<longrightarrow>
      (\<exists>e. android_extractTextFromImageData env d' = (Rejected e, [])
         \<and> ce_code e = ''INVALID_IMAGE'')
    \<and> (\<exists>e. android_extractTextFromImageDataWithDetails env d' = (Rejected e, [])
         \<and> ce_code e = ''INVALID_IMAGE''))
   \<and> (Data_contentsOf ios q = Inl thrown \<longrightarrow>
      ios_extractTextFromImage ios q = (Rejected thrown, [])
    \<and> ios_extractTextFromImageWithDetails ios q = (Rejected thrown, []))
   \<and> (Data_contentsOf ios q' = Inr imageData \<and> UIImage_cgImage ios imageData = None \<longrightarrow>
      (\<exists>e. ios_extractTextFromImage ios q' = (Rejected e, []))
    \<and> ios_extractTextFromImageWithDetails ios q' =
        (Rejected (Exception ''INVALID_IMAGE'' ''Unable to create image from file''), []))
   \<and> (Data_base64Encoded ios b = None \<longrightarrow>
      ios_extractTextFromImageData ios b =
        (Rejected (Exception ''INVALID_BASE64'' ''Invalid base64 data''), [])
    \<and> ios_extractTextFromImageDataWithDetails ios b =
        (Rejected (Exception ''INVALID_BASE64'' ''Invalid base64 data''), []))
   \<and> (Data_base64Encoded ios b' = Some imageData' \<and> UIImage_cgImage ios imageData' = None
        \<longrightarrow>
      ios_extractTextFromImageData ios b' =
        (Rejected (Exception ''INVALID_IMAGE'' ''Unable to create image from data''), [])
    \<and> ios_extractTextFromImageDataWithDetails ios b' =
        (Rejected (Exception ''INVALID_IMAGE'' ''Unable to create image from data''), []))"
proof (intro conjI impI)
  assume "\<not> prefix ''content://'' p \<and> \<not> file_exists env p"
  then have "(\<exists>t. open_uri env p = Inl t
      \<and> (reactContext env \<longrightarrow> getMessage t = Some (''File not found: '' @ p)))"
    by (simp add: open_uri_def)
  then obtain t where t: "open_uri env p = Inl t"
    "reactContext env \<longrightarrow> getMessage t = Some (''File not found: '' @ p)"
    by blast
  then show "\<exists>e. android_extractTextFromImage env p = (Rejected e, [])
         \<and> ce_code e = ''UNKNOWN_ERROR''
         \<and> (reactContext env \<longrightarrow> ce_message e = Some (''File not found: '' @ p))"
    by (simp add: android_extractTextFromImage_def unknown_error_def orElse_def)
  from t show "\<exists>e. android_extractTextFromImageWithDetails env p = (Rejected e, [])
         \<and> ce_code e = ''UNKNOWN_ERROR''
         \<and> (reactContext env \<longrightarrow> ce_message e = Some (''File not found: '' @ p))"
    by (simp add: android_extractTextFromImageWithDetails_def unknown_error_def orElse_def)
next
  assume a: "open_uri env p' = Inr imageUri \<and> fromFilePath env imageUri = Inl err"
  then show "\<exists>e. android_extractTextFromImage env p' = (Rejected e, [])"
    by (simp add: android_extractTextFromImage_def)
  from a show "\<exists>e. android_extractTextFromImageWithDetails env p' = (Rejected e, [])"
    by (simp add: android_extractTextFromImageWithDetails_def)
next
  assume a: "Base64_decode env d = Inl err'"
  then show "\<exists>e. android_extractTextFromImageData env d = (Rejected e, [])"
    by (simp add: android_extractTextFromImageData_def)
  from a show "\<exists>e. android_extractTextFromImageDataWithDetails env d = (Rejected e, [])"
    by (simp add: android_extractTextFromImageDataWithDetails_def)
next
  assume a: "Base64_decode env d' = Inr bytes \<and> decodeByteArray env bytes = None"
  then show "\<exists>e. android_extractTextFromImageData env d' = (Rejected e, [])
         \<and> ce_code e = ''INVALID_IMAGE''"
    by (simp add: android_extractTextFromImageData_def invalid_image_def)
  from a show "\<exists>e. android_extractTextFromImageDataWithDetails env d' = (Rejected e, [])
         \<and> ce_code e = ''INVALID_IMAGE''"
    by (simp add: android_extractTextFromImageDataWithDetails_def invalid_image_def)
next
  assume a: "Data_contentsOf ios q = Inl thrown"
  then show "ios_extractTextFromImage ios q = (Rejected thrown, [])"
    by (simp add: ios_extractTextFromImage_def)
  from a show "ios_extractTextFromImageWithDetails ios q = (Rejected thrown, [])"
    by (simp add: ios_extractTextFromImageWithDetails_def)
next
  assume a: "Data_contentsOf ios q' = Inr imageData \<and> UIImage_cgImage ios imageData = None"
  then show "\<exists>e. ios_extractTextFromImage ios q' = (Rejected e, [])"
    by (simp add: ios_extractTextFromImage_def)
  from a show "ios_extractTextFromImageWithDetails ios q' =
        (Rejected (Exception ''INVALID_IMAGE'' ''Unable to create image from file''), [])"
    by (simp add: ios_extractTextFromImageWithDetails_def)
next
  assume a: "Data_base64Encoded ios b = None"
  then show "ios_extractTextFromImageData ios b =
        (Rejected (Exception ''INVALID_BASE64'' ''Invalid base64 data''), [])"
    by (simp add: ios_extractTextFromImageData_def)
  from a show "ios_extractTextFromImageDataWithDetails ios b =
        (Rejected (Exception ''INVALID_BASE64'' ''Invalid base64 data''), [])"
    by (simp add: ios_extractTextFromImageDataWithDetails_def)
next
  assume a: "Data_base64Encoded ios b' = Some imageData' \<and> UIImage_cgImage ios imageData' = None"
  then show "ios_extractTextFromImageData ios b' =
        (Rejected (Exception ''INVALID_IMAGE'' ''Unable to create image from data''), [])"
    by (simp add: ios_extractTextFromImageData_def)
  from a show "ios_extractTextFromImageDataWithDetails ios b' =
        (Rejected (Exception ''INVALID_IMAGE'' ''Unable to create image from data''), [])"
    by (simp add: ios_extractTextFromImageDataWithDetails_def)
qed



theorem invalid_input_rejected_before_recognition_witness:
  "\<not> prefix ''content://'' ''/sdcard/missing.png''
   \<and> \<not> file_exists android_device ''/sdcard/missing.png''
   \<and> (\<exists>e. android_extractTextFromImage android_device ''/sdcard/missing.png'' = (Rejected e, [])
         \<and> ce_code e = ''UNKNOWN_ERROR''
         \<and> ce_message e = Some ''File not found: /sdcard/missing.png'')
   \<and> fromFilePath android_device (Uri_fromFile ''/sdcard/broken.png'')
        = Inl (Throwable (Some ''Image cannot be decoded''))
   \<and> (\<exists>e. android_extractTextFromImage android_device ''/sdcard/broken.png'' = (Rejected e, []))
   \<and> Base64_decode android_device ''!!'' = Inl (Throwable (Some ''bad base-64''))
   \<and> (\<exists>e. android_extractTextFromImageData android_device ''!!'' = (Rejected e, []))
   \<and> decodeByteArray android_device [65, 66, 67] = None
   \<and> (\<exists>e. android_extractTextFromImageData android_device ''QUJD'' = (Rejected e, [])
         \<and> ce_code e = ''INVALID_IMAGE'')
   \<and> Data_contentsOf iphone ''/missing.png'' = Inl (NSError ''no such file'')
   \<and> ios_extractTextFromImage iphone ''/missing.png'' = (Rejected (NSError ''no such file''), [])
   \<and> UIImage_cgImage iphone [3] = None
   \<and> ios_extractTextFromImageWithDetails iphone ''/notes.txt'' =
        (Rejected (Exception ''INVALID_IMAGE'' ''Unable to create image from file''), [])
   \<and> Data_base64Encoded iphone ''!!'' = None
   \<and> ios_extractTextFromImageData iphone ''!!'' =
        (Rejected (Exception ''INVALID_BASE64'' ''Invalid base64 data''), [])
   \<and> ios_extractTextFromImageData iphone ''Aw=='' =
        (Rejected (Exception ''INVALID_IMAGE'' ''Unable to create image from data''), [])"
proof -
  have android:
    "\<not> prefix ''content://'' ''/sdcard/missing.png''"
    "\<not> file_exists android_device ''/sdcard/missing.png''"
    "reactContext android_device"
    "open_uri android_device ''/sdcard/broken.png'' = Inr (Uri_fromFile ''/sdcard/broken.png'')"
    "fromFilePath android_device (Uri_fromFile ''/sdcard/broken.png'')
       = Inl (Throwable (Some ''Image cannot be decoded''))"
    "Base64_decode android_device ''!!'' = Inl (Throwable (Some ''bad base-64''))"
    "Base64_decode android_device ''QUJD'' = Inr [65, 66, 67]"
    "decodeByteArray android_device [65, 66, 67] = None"
    by (simp_all add: android_device_def open_uri_def)
  have ios:
    "Data_contentsOf iphone ''/missing.png'' = Inl (NSError ''no such file'')"
    "Data_contentsOf iphone ''/notes.txt'' = Inr [3]"
    "UIImage_cgImage iphone [3] = None"
    "Data_base64Encoded iphone ''!!'' = None"
    "Data_base64Encoded iphone ''Aw=='' = Some [3]"
    by (simp_all add: iphone_def)
  from android ios
    invalid_input_rejected_before_recognition [where env = android_device
      and p = "''/sdcard/missing.png''" and p' = "''/sdcard/broken.png''"
      and imageUri = "Uri_fromFile ''/sdcard/broken.png''"
      and err = "Throwable (Some ''Image cannot be decoded'')"
      and d = "''!!''" and err' = "Throwable (Some ''bad base-64'')"
      and d' = "''QUJD''" and bytes = "[65, 66, 67]"
      and ios = iphone and q = "''/missing.png''" and thrown = "NSError ''no such file''"
      and q' = "''/notes.txt''" and imageData = "[3]"
      and b = "''!!''" and b' = "''Aw==''" and imageData' = "[3]"]
  show ?thesis
    by simp
qed

text \<open>C3 as stated asks for \<^verbatim>\<open>INVALID_IMAGE\<close> on a path of no file; the Android module
  rejects it with \<^verbatim>\<open>UNKNOWN_ERROR\<close> (and does not call the recogniser).\<close>

theorem missing_file_counterexample:
  "file_exists android_device ''/sdcard/missing.png'' = False
   \<and> extractTextFromImage (android_module android_device) ''file:///sdcard/missing.png'' =
       (Rejected \<lparr>ce_code = ''UNKNOWN_ERROR'',
                  ce_message = Some ''File not found: /sdcard/missing.png'',
                  ce_cause = Some (Throwable (Some ''File not found: /sdcard/missing.png''))\<rparr>,
        [])
   \<and> ''UNKNOWN_ERROR'' \<noteq> ''INVALID_IMAGE''"
  by (simp add: extractTextFromImage_def android_module_def android_extractTextFromImage_def
      open_uri_def android_device_def unknown_error_def orElse_def Let_def)

text \<open>
  C4, as the code has it. The tags of the rejections are not confined to \<^verbatim>\<open>OCRErrorCode\<close>,
  and not every failure is a rejection.
  \<^item> Android, before recognition: a missing React context, a path of no file, a file that
    cannot be read, a payload that is not base64 or whose bytes are no image reject with
    one of the nine kinds and a message (\<^verbatim>\<open>INVALID_IMAGE\<close> for bytes that are no image).
  \<^item> Android, failed recognition: \<^verbatim>\<open>extractTextFromImageData\<close>,
    \<^verbatim>\<open>extractTextFromImageWithDetails\<close> and \<^verbatim>\<open>extractTextFromImageDataWithDetails\<close>
    reject with \<^verbatim>\<open>TEXT_RECOGNITION_ERROR\<close>, which is not one of the nine kinds, and a
    message; \<^verbatim>\<open>extractTextFromImage\<close> rejects too.
  \<^item> Android, conversely: a rejection of the three operations named carries
    \<^verbatim>\<open>UNKNOWN_ERROR\<close>, \<^verbatim>\<open>INVALID_IMAGE\<close> or \<^verbatim>\<open>TEXT_RECOGNITION_ERROR\<close> and a message,
    and a rejection of \<^verbatim>\<open>extractTextFromImage\<close> that comes before the recogniser is
    called carries \<^verbatim>\<open>UNKNOWN_ERROR\<close> and a message.
  \<^item> iOS: an error thrown by \<^verbatim>\<open>Data(contentsOf:)\<close> or by the request handler is the
    rejection, unchanged; a payload that is not base64 rejects with \<^verbatim>\<open>INVALID_BASE64\<close>,
    data that are no image with \<^verbatim>\<open>INVALID_IMAGE\<close> (in \<^verbatim>\<open>extractTextFromImage\<close> they
    reject too); a request whose results are missing does not reject, the call resolves
    with the empty list.
  \<^item> iOS, conversely: a rejection of \<^verbatim>\<open>extractTextFromImageData\<close>,
    \<^verbatim>\<open>extractTextFromImageWithDetails\<close> or \<^verbatim>\<open>extractTextFromImageDataWithDetails\<close> is
    the module's \<^verbatim>\<open>INVALID_BASE64\<close> or \<^verbatim>\<open>INVALID_IMAGE\<close> exception with its
    description, or a thrown error passed on.
\<close>

theorem rejection_tags:
  "(open_uri env u1 = Inl t1 \<longrightarrow>
      (\<exists>e. android_extractTextFromImage env u1 = (Rejected e, [])
         \<and> ce_code e \<in> set OCRErrorCode_values \<and> ce_message e \<noteq> None)
    \<and> (\<exists>e. android_extractTextFromImageWithDetails env u1 = (Rejected e, [])
         \<and> ce_code e \<in> set OCRErrorCode_values \<and> ce_message e \<noteq> None))
   \<and> (open_uri env u2 = Inr uri2 \<and> fromFilePath env uri2 = Inl t2 \<longrightarrow>
      (\<exists>e. android_extractTextFromImage env u2 = (Rejected e, [])
         \<and> ce_code e \<in> set OCRErrorCode_values \<and> ce_message e \<noteq> None)
    \<and> (\<exists>e. android_extractTextFromImageWithDetails env u2 = (Rejected e, [])
         \<and> ce_code e \<in> set OCRErrorCode_values \<and> ce_message e \<noteq> None))
   \<and> (open_uri env u3 = Inr uri3 \<and> fromFilePath env uri3 = Inr img3
        \<and> process env img3 = Inl t3 \<longrightarrow>
      (\<exists>e. fst (android_extractTextFromImage env u3) = Rejected e)
    \<and> (\<exists>e. fst (android_extractTextFromImageWithDetails env u3) = Rejected e
         \<and> ce_code e = ''TEXT_RECOGNITION_ERROR'' \<and> ce_message e \<noteq> None))
   \<and> (Base64_decode env d4 = Inl t4 \<longrightarrow>
      (\<exists>e. android_extractTextFromImageData env d4 = (Rejected e, [])
         \<and> ce_code e \<in> set OCRErrorCode_values \<and> ce_message e \<noteq> None)
    \<and> (\<exists>e. android_extractTextFromImageDataWithDetails env d4 = (Rejected e, [])
         \<and> ce_code e \<in> set OCRErrorCode_values \<and> ce_message e \<noteq> None))
   \<and> (Base64_decode env d5 = Inr bytes5 \<and> decodeByteArray env bytes5 = None \<longrightarrow>
      (\<exists>e. android_extractTextFromImageData env d5 = (Rejected e, [])
         \<and> ce_code e = ''INVALID_IMAGE'' \<and> ce_message e \<noteq> None)
    \<and> (\<exists>e. android_extractTextFromImageDataWithDetails env d5 = (Rejected e, [])
         \<and> ce_code e = ''INVALID_IMAGE'' \<and> ce_message e \<noteq> None))
   \<and> (Base64_decode env d6 = Inr bytes6 \<and> decodeByteArray env bytes6 = Some bmp6
        \<and> process env (fromBitmap env bmp6) = Inl t6 \<longrightarrow>
      (\<exists>e. fst (android_extractTextFromImageData env d6) = Rejected e
         \<and> ce_code e = ''TEXT_RECOGNITION_ERROR'' \<and> ce_message e \<noteq> None)
    \<and> (\<exists>e. fst (android_extractTextFromImageDataWithDetails env d6) = Rejected e
         \<and> ce_code e = ''TEXT_RECOGNITION_ERROR'' \<and> ce_message e \<noteq> None))
   \<and> (fst (android_extractTextFromImageData env d) = Rejected e1 \<longrightarrow>
      ce_code e1 \<in> {''UNKNOWN_ERROR'', ''INVALID_IMAGE'', ''TEXT_RECOGNITION_ERROR''}
      \<and> ce_message e1 \<noteq> None)
   \<and> (fst (android_extractTextFromImageWithDetails env u) = Rejected e2 \<longrightarrow>
      ce_code e2 \<in> {''UNKNOWN_ERROR'', ''TEXT_RECOGNITION_ERROR''}
      \<and> ce_message e2 \<noteq> None)
   \<and> (fst (android_extractTextFromImageDataWithDetails env d') = Rejected e3 \<longrightarrow>
      ce_code e3 \<in> {''UNKNOWN_ERROR'', ''INVALID_IMAGE'', ''TEXT_RECOGNITION_ERROR''}
      \<and> ce_message e3 \<noteq> None)
   \<and> (android_extractTextFromImage env u' = (Rejected e4, []) \<longrightarrow>
      ce_code e4 = ''UNKNOWN_ERROR'' \<and> ce_message e4 \<noteq> None)
   \<and> (Data_contentsOf ios q1 = Inl thrown1 \<longrightarrow>
      fst (ios_extractTextFromImage ios q1) = Rejected thrown1
    \<and> fst (ios_extractTextFromImageWithDetails ios q1) = Rejected thrown1)
   \<and> (Data_contentsOf ios q2 = Inr data2 \<and> UIImage_cgImage ios data2 = None \<longrightarrow>
      (\<exists>e. fst (ios_extractTextFromImage ios q2) = Rejected e)
    \<and> fst (ios_extractTextFromImageWithDetails ios q2) =
        Rejected (Exception ''INVALID_IMAGE'' ''Unable to create image from file''))
   \<and> (Data_contentsOf ios q3 = Inr data3 \<and> UIImage_cgImage ios data3 = Some cg3
        \<and> perform ios cg3 = Inl thrown3 \<longrightarrow>
      fst (ios_extractTextFromImage ios q3) = Rejected thrown3
    \<and> fst (ios_extractTextFromImageWithDetails ios q3) = Rejected thrown3)
   \<and> (Data_contentsOf ios q4 = Inr data4 \<and> UIImage_cgImage ios data4 = Some cg4
        \<and> perform ios cg4 = Inr None \<longrightarrow>
      fst (ios_extractTextFromImage ios q4) = Resolved []
    \<and> fst (ios_extractTextFromImageWithDetails ios q4) = Resolved [])
   \<and> (Data_base64Encoded ios b5 = None \<longrightarrow>
      fst (ios_extractTextFromImageData ios b5) =
        Rejected (Exception ''INVALID_BASE64'' ''Invalid base64 data'')
    \<and> fst (ios_extractTextFromImageDataWithDetails ios b5) =
        Rejected (Exception ''INVALID_BASE64'' ''Invalid base64 data''))
   \<and> (Data_base64Encoded ios b6 = Some data6 \<and> UIImage_cgImage ios data6 = None \<longrightarrow>
      fst (ios_extractTextFromImageData ios b6) =
        Rejected (Exception ''INVALID_IMAGE'' ''Unable to create image from data'')
    \<and> fst (ios_extractTextFromImageDataWithDetails ios b6) =
        Rejected (Exception ''INVALID_IMAGE'' ''Unable to create image from data''))
   \<and> (Data_base64Encoded ios b7 = Some data7 \<and> UIImage_cgImage ios data7 = Some cg7
        \<and> perform ios cg7 = Inl thrown7 \<longrightarrow>
      fst (ios_extractTextFromImageData ios b7) = Rejected thrown7
    \<and> fst (ios_extractTextFromImageDataWithDetails ios b7) = Rejected thrown7)
   \<and> (Data_base64Encoded ios b8 = Some data8 \<and> UIImage_cgImage ios data8 = Some cg8
        \<and> perform ios cg8 = Inr None \<longrightarrow>
      fst (ios_extractTextFromImageData ios b8) = Resolved []
    \<and> fst (ios_extractTextFromImageDataWithDetails ios b8) = Resolved [])
   \<and> (fst (ios_extractTextFromImageData ios b) = Rejected e5 \<longrightarrow>
      e5 = Exception ''INVALID_BASE64'' ''Invalid base64 data''
      \<or> e5 = Exception ''INVALID_IMAGE'' ''Unable to create image from data''
      \<or> (\<exists>cgImage. perform ios cgImage = Inl e5))
   \<and> (fst (ios_extractTextFromImageWithDetails ios q) = Rejected e6 \<longrightarrow>
      e6 = Exception ''INVALID_IMAGE'' ''Unable to create image from file''
      \<or> Data_contentsOf ios q = Inl e6
      \<or> (\<exists>cgImage. perform ios cgImage = Inl e6))
   \<and> (fst (ios_extractTextFromImageDataWithDetails ios b') = Rejected e7 \<longrightarrow>
      e7 = Exception ''INVALID_BASE64'' ''Invalid base64 data''
      \<or> e7 = Exception ''INVALID_IMAGE'' ''Unable to create image from data''
      \<or> (\<exists>cgImage. perform ios cgImage = Inl e7))
   \<and> ''TEXT_RECOGNITION_ERROR'' \<notin> set OCRErrorCode_values"
proof -
  have unknown: "ce_code (unknown_error t) \<in> set OCRErrorCode_values
      \<and> ce_message (unknown_error t) \<noteq> None" for t
    by (simp add: unknown_error_def OCRErrorCode_values_def)
  have invalid: "ce_code invalid_image = ''INVALID_IMAGE'' \<and> ce_message invalid_image \<noteq> None"
    by (simp add: invalid_image_def)
  have failed: "ce_code (text_recognition_error t) = ''TEXT_RECOGNITION_ERROR''
      \<and> ce_message (text_recognition_error t) \<noteq> None" for t
    by (simp add: text_recognition_error_def)
  have a1: "open_uri env u1 = Inl t1 \<longrightarrow>
      (\<exists>e. android_extractTextFromImage env u1 = (Rejected e, [])
         \<and> ce_code e \<in> set OCRErrorCode_values \<and> ce_message e \<noteq> None)
    \<and> (\<exists>e. android_extractTextFromImageWithDetails env u1 = (Rejected e, [])
         \<and> ce_code e \<in> set OCRErrorCode_values \<and> ce_message e \<noteq> None)"
    using unknown
    by (simp add: android_extractTextFromImage_def android_extractTextFromImageWithDetails_def)
  have a2: "open_uri env u2 = Inr uri2 \<and> fromFilePath env uri2 = Inl t2 \<longrightarrow>
      (\<exists>e. android_extractTextFromImage env u2 = (Rejected e, [])
         \<and> ce_code e \<in> set OCRErrorCode_values \<and> ce_message e \<noteq> None)
    \<and> (\<exists>e. android_extractTextFromImageWithDetails env u2 = (Rejected e, [])
         \<and> ce_code e \<in> set OCRErrorCode_values \<and> ce_message e \<noteq> None)"
    using unknown
    by (simp add: android_extractTextFromImage_def android_extractTextFromImageWithDetails_def)
  have a3: "open_uri env u3 = Inr uri3 \<and> fromFilePath env uri3 = Inr img3
        \<and> process env img3 = Inl t3 \<longrightarrow>
      (\<exists>e. fst (android_extractTextFromImage env u3) = Rejected e)
    \<and> (\<exists>e. fst (android_extractTextFromImageWithDetails env u3) = Rejected e
         \<and> ce_code e = ''TEXT_RECOGNITION_ERROR'' \<and> ce_message e \<noteq> None)"
    using failed
    by (simp add: android_extractTextFromImage_def android_extractTextFromImageWithDetails_def)
  have a4: "Base64_decode env d4 = Inl t4 \<longrightarrow>
      (\<exists>e. android_extractTextFromImageData env d4 = (Rejected e, [])
         \<and> ce_code e \<in> set OCRErrorCode_values \<and> ce_message e \<noteq> None)
    \<and> (\<exists>e. android_extractTextFromImageDataWithDetails env d4 = (Rejected e, [])
         \<and> ce_code e \<in> set OCRErrorCode_values \<and> ce_message e \<noteq> None)"
    using unknown
    by (simp add: android_extractTextFromImageData_def
        android_extractTextFromImageDataWithDetails_def)
  have a5: "Base64_decode env d5 = Inr bytes5 \<and> decodeByteArray env bytes5 = None \<longrightarrow>
      (\<exists>e. android_extractTextFromImageData env d5 = (Rejected e, [])
         \<and> ce_code e = ''INVALID_IMAGE'' \<and> ce_message e \<noteq> None)
    \<and> (\<exists>e. android_extractTextFromImageDataWithDetails env d5 = (Rejected e, [])
         \<and> ce_code e = ''INVALID_IMAGE'' \<and> ce_message e \<noteq> None)"
    using invalid
    by (simp add: android_extractTextFromImageData_def
        android_extractTextFromImageDataWithDetails_def)
  have a6: "Base64_decode env d6 = Inr bytes6 \<and> decodeByteArray env bytes6 = Some bmp6
        \<and> process env (fromBitmap env bmp6) = Inl t6 \<longrightarrow>
      (\<exists>e. fst (android_extractTextFromImageData env d6) = Rejected e
         \<and> ce_code e = ''TEXT_RECOGNITION_ERROR'' \<and> ce_message e \<noteq> None)
    \<and> (\<exists>e. fst (android_extractTextFromImageDataWithDetails env d6) = Rejected e
         \<and> ce_code e = ''TEXT_RECOGNITION_ERROR'' \<and> ce_message e \<noteq> None)"
    using failed
    by (simp add: android_extractTextFromImageData_def
        android_extractTextFromImageDataWithDetails_def)
  have b1: "fst (android_extractTextFromImageData env d) = Rejected e1 \<longrightarrow>
      ce_code e1 \<in> {''UNKNOWN_ERROR'', ''INVALID_IMAGE'', ''TEXT_RECOGNITION_ERROR''}
      \<and> ce_message e1 \<noteq> None"
  proof
    assume "fst (android_extractTextFromImageData env d) = Rejected e1"
    then have "e1 = invalid_image \<or> (\<exists>t. e1 = unknown_error t \<or> e1 = text_recognition_error t)"
      by (auto simp: android_extractTextFromImageData_def Let_def
          split: sum.splits option.splits)
    then show "ce_code e1 \<in> {''UNKNOWN_ERROR'', ''INVALID_IMAGE'', ''TEXT_RECOGNITION_ERROR''}
        \<and> ce_message e1 \<noteq> None"
      by (auto simp: invalid_image_def unknown_error_def text_recognition_error_def)
  qed
  have b2: "fst (android_extractTextFromImageWithDetails env u) = Rejected e2 \<longrightarrow>
      ce_code e2 \<in> {''UNKNOWN_ERROR'', ''TEXT_RECOGNITION_ERROR''}
      \<and> ce_message e2 \<noteq> None"
  proof
    assume "fst (android_extractTextFromImageWithDetails env u) = Rejected e2"
    then have "\<exists>t. e2 = unknown_error t \<or> e2 = text_recognition_error t"
      by (auto simp: android_extractTextFromImageWithDetails_def
          split: sum.splits option.splits)
    then show "ce_code e2 \<in> {''UNKNOWN_ERROR'', ''TEXT_RECOGNITION_ERROR''}
        \<and> ce_message e2 \<noteq> None"
      by (auto simp: unknown_error_def text_recognition_error_def)
  qed
  have b3: "fst (android_extractTextFromImageDataWithDetails env d') = Rejected e3 \<longrightarrow>
      ce_code e3 \<in> {''UNKNOWN_ERROR'', ''INVALID_IMAGE'', ''TEXT_RECOGNITION_ERROR''}
      \<and> ce_message e3 \<noteq> None"
  proof
    assume "fst (android_extractTextFromImageDataWithDetails env d') = Rejected e3"
    then have "e3 = invalid_image \<or> (\<exists>t. e3 = unknown_error t \<or> e3 = text_recognition_error t)"
      by (auto simp: android_extractTextFromImageDataWithDetails_def Let_def
          split: sum.splits option.splits)
    then show "ce_code e3 \<in> {''UNKNOWN_ERROR'', ''INVALID_IMAGE'', ''TEXT_RECOGNITION_ERROR''}
        \<and> ce_message e3 \<noteq> None"
      by (auto simp: invalid_image_def unknown_error_def text_recognition_error_def)
  qed
  have b4: "android_extractTextFromImage env u' = (Rejected e4, []) \<longrightarrow>
      ce_code e4 = ''UNKNOWN_ERROR'' \<and> ce_message e4 \<noteq> None"
  proof
    assume "android_extractTextFromImage env u' = (Rejected e4, [])"
    then have "\<exists>t. e4 = unknown_error t"
      by (auto simp: android_extractTextFromImage_def split: sum.splits)
    then show "ce_code e4 = ''UNKNOWN_ERROR'' \<and> ce_message e4 \<noteq> None"
      by (auto simp: unknown_error_def)
  qed
  have i1: "Data_contentsOf ios q1 = Inl thrown1 \<longrightarrow>
      fst (ios_extractTextFromImage ios q1) = Rejected thrown1
    \<and> fst (ios_extractTextFromImageWithDetails ios q1) = Rejected thrown1"
    by (simp add: ios_extractTextFromImage_def ios_extractTextFromImageWithDetails_def)
  have i2: "Data_contentsOf ios q2 = Inr data2 \<and> UIImage_cgImage ios data2 = None \<longrightarrow>
      (\<exists>e. fst (ios_extractTextFromImage ios q2) = Rejected e)
    \<and> fst (ios_extractTextFromImageWithDetails ios q2) =
        Rejected (Exception ''INVALID_IMAGE'' ''Unable to create image from file'')"
    by (simp add: ios_extractTextFromImage_def ios_extractTextFromImageWithDetails_def)
  have i3: "Data_contentsOf ios q3 = Inr data3 \<and> UIImage_cgImage ios data3 = Some cg3
        \<and> perform ios cg3 = Inl thrown3 \<longrightarrow>
      fst (ios_extractTextFromImage ios q3) = Rejected thrown3
    \<and> fst (ios_extractTextFromImageWithDetails ios q3) = Rejected thrown3"
    by (simp add: ios_extractTextFromImage_def ios_extractTextFromImageWithDetails_def)
  have i4: "Data_contentsOf ios q4 = Inr data4 \<and> UIImage_cgImage ios data4 = Some cg4
        \<and> perform ios cg4 = Inr None \<longrightarrow>
      fst (ios_extractTextFromImage ios q4) = Resolved []
    \<and> fst (ios_extractTextFromImageWithDetails ios q4) = Resolved []"
    by (simp add: ios_extractTextFromImage_def ios_extractTextFromImageWithDetails_def)
  have i5: "Data_base64Encoded ios b5 = None \<longrightarrow>
      fst (ios_extractTextFromImageData ios b5) =
        Rejected (Exception ''INVALID_BASE64'' ''Invalid base64 data'')
    \<and> fst (ios_extractTextFromImageDataWithDetails ios b5) =
        Rejected (Exception ''INVALID_BASE64'' ''Invalid base64 data'')"
    by (simp add: ios_extractTextFromImageData_def ios_extractTextFromImageDataWithDetails_def)
  have i6: "Data_base64Encoded ios b6 = Some data6 \<and> UIImage_cgImage ios data6 = None \<longrightarrow>
      fst (ios_extractTextFromImageData ios b6) =
        Rejected (Exception ''INVALID_IMAGE'' ''Unable to create image from data'')
    \<and> fst (ios_extractTextFromImageDataWithDetails ios b6) =
        Rejected (Exception ''INVALID_IMAGE'' ''Unable to create image from data'')"
    by (simp add: ios_extractTextFromImageData_def ios_extractTextFromImageDataWithDetails_def)
  have i7: "Data_base64Encoded ios b7 = Some data7 \<and> UIImage_cgImage ios data7 = Some cg7
        \<and> perform ios cg7 = Inl thrown7 \<longrightarrow>
      fst (ios_extractTextFromImageData ios b7) = Rejected thrown7
    \<and> fst (ios_extractTextFromImageDataWithDetails ios b7) = Rejected thrown7"
    by (simp add: ios_extractTextFromImageData_def ios_extractTextFromImageDataWithDetails_def)
  have i8: "Data_base64Encoded ios b8 = Some data8 \<and> UIImage_cgImage ios data8 = Some cg8
        \<and> perform ios cg8 = Inr None \<longrightarrow>
      fst (ios_extractTextFromImageData ios b8) = Resolved []
    \<and> fst (ios_extractTextFromImageDataWithDetails ios b8) = Resolved []"
    by (simp add: ios_extractTextFromImageData_def ios_extractTextFromImageDataWithDetails_def)
  have b5: "fst (ios_extractTextFromImageData ios b) = Rejected e5 \<longrightarrow>
      e5 = Exception ''INVALID_BASE64'' ''Invalid base64 data''
      \<or> e5 = Exception ''INVALID_IMAGE'' ''Unable to create image from data''
      \<or> (\<exists>cgImage. perform ios cgImage = Inl e5)"
    by (auto simp: ios_extractTextFromImageData_def split: sum.splits option.splits)
  have b6: "fst (ios_extractTextFromImageWithDetails ios q) = Rejected e6 \<longrightarrow>
      e6 = Exception ''INVALID_IMAGE'' ''Unable to create image from file''
      \<or> Data_contentsOf ios q = Inl e6
      \<or> (\<exists>cgImage. perform ios cgImage = Inl e6)"
    by (auto simp: ios_extractTextFromImageWithDetails_def split: sum.splits option.splits)
  have b7: "fst (ios_extractTextFromImageDataWithDetails ios b') = Rejected e7 \<longrightarrow>
      e7 = Exception ''INVALID_BASE64'' ''Invalid base64 data''
      \<or> e7 = Exception ''INVALID_IMAGE'' ''Unable to create image from data''
      \<or> (\<exists>cgImage. perform ios cgImage = Inl e7)"
    by (auto simp: ios_extractTextFromImageDataWithDetails_def split: sum.splits option.splits)
  have outside: "''TEXT_RECOGNITION_ERROR'' \<notin> set OCRErrorCode_values"
    by (simp add: OCRErrorCode_values_def)
  from a1 a2 a3 a4 a5 a6 b1 b2 b3 b4 i1 i2 i3 i4 i5 i6 i7 i8 b5 b6 b7 outside
  show ?thesis
    by (intro conjI)
qed

theorem rejection_tags_witness:
  "open_uri android_device ''/sdcard/missing.png''
     = Inl (Throwable (Some ''File not found: /sdcard/missing.png''))
   \<and> android_extractTextFromImage android_device ''/sdcard/missing.png''
     = (Rejected (unknown_error (Throwable (Some ''File not found: /sdcard/missing.png''))), [])
   \<and> fromFilePath android_device (Uri_fromFile ''/sdcard/broken.png'')
     = Inl (Throwable (Some ''Image cannot be decoded''))
   \<and> android_extractTextFromImage android_device ''/sdcard/broken.png''
     = (Rejected (unknown_error (Throwable (Some ''Image cannot be decoded''))), [])
   \<and> ce_code (unknown_error (Throwable (Some ''Image cannot be decoded''))) = ''UNKNOWN_ERROR''
   \<and> process android_device 2 = Inl (Throwable None)
   \<and> fst (android_extractTextFromImageWithDetails android_device ''/sdcard/blurry.png'')
     = Rejected (text_recognition_error (Throwable None))
   \<and> Base64_decode android_device ''!!'' = Inl (Throwable (Some ''bad base-64''))
   \<and> fst (android_extractTextFromImageData android_device ''!!'')
     = Rejected (unknown_error (Throwable (Some ''bad base-64'')))
   \<and> decodeByteArray android_device [65, 66, 67] = None
   \<and> fst (android_extractTextFromImageDataWithDetails android_device ''QUJD'')
     = Rejected invalid_image
   \<and> fst (android_extractTextFromImageData android_device ''AQID'')
     = Rejected (text_recognition_error (Throwable None))
   \<and> ce_code (text_recognition_error (Throwable None))
       \<in> {''UNKNOWN_ERROR'', ''INVALID_IMAGE'', ''TEXT_RECOGNITION_ERROR''}
   \<and> fst (android_extractTextFromImageWithDetails android_device ''/sdcard/missing.png'')
     = Rejected (unknown_error (Throwable (Some ''File not found: /sdcard/missing.png'')))
   \<and> Data_contentsOf iphone ''/missing.png'' = Inl (NSError ''no such file'')
   \<and> fst (ios_extractTextFromImageWithDetails iphone ''/missing.png'')
     = Rejected (NSError ''no such file'')
   \<and> UIImage_cgImage iphone [3] = None
   \<and> fst (ios_extractTextFromImageWithDetails iphone ''/notes.txt'')
     = Rejected (Exception ''INVALID_IMAGE'' ''Unable to create image from file'')
   \<and> perform iphone \<lparr>img_width = 64, img_height = 64\<rparr> = Inl (NSError ''request failed'')
   \<and> fst (ios_extractTextFromImage iphone ''/dark.png'') = Rejected (NSError ''request failed'')
   \<and> fst (ios_extractTextFromImageData iphone ''BA=='') = Rejected (NSError ''request failed'')
   \<and> perform iphone \<lparr>img_width = 32, img_height = 32\<rparr> = Inr None
   \<and> fst (ios_extractTextFromImage iphone ''/blank.png'') = Resolved []
   \<and> fst (ios_extractTextFromImageDataWithDetails iphone ''BQ=='') = Resolved []
   \<and> Data_base64Encoded iphone ''!!'' = None
   \<and> fst (ios_extractTextFromImageData iphone ''!!'')
     = Rejected (Exception ''INVALID_BASE64'' ''Invalid base64 data'')
   \<and> fst (ios_extractTextFromImageDataWithDetails iphone ''Aw=='')
     = Rejected (Exception ''INVALID_IMAGE'' ''Unable to create image from data'')"
proof -
  have android:
    "open_uri android_device ''/sdcard/missing.png''
       = Inl (Throwable (Some ''File not found: /sdcard/missing.png''))"
    "open_uri android_device ''/sdcard/broken.png'' = Inr (Uri_fromFile ''/sdcard/broken.png'')"
    "fromFilePath android_device (Uri_fromFile ''/sdcard/broken.png'')
       = Inl (Throwable (Some ''Image cannot be decoded''))"
    "open_uri android_device ''/sdcard/blurry.png'' = Inr (Uri_fromFile ''/sdcard/blurry.png'')"
    "fromFilePath android_device (Uri_fromFile ''/sdcard/blurry.png'') = Inr 2"
    "process android_device 2 = Inl (Throwable None)"
    "Base64_decode android_device ''!!'' = Inl (Throwable (Some ''bad base-64''))"
    "Base64_decode android_device ''QUJD'' = Inr [65, 66, 67]"
    "decodeByteArray android_device [65, 66, 67] = None"
    "Base64_decode android_device ''AQID'' = Inr [1, 2, 3]"
    "decodeByteArray android_device [1, 2, 3] = Some 2"
    "process android_device (fromBitmap android_device 2) = Inl (Throwable None)"
    by (simp_all add: android_device_def open_uri_def)
  have android_runs:
    "fst (android_extractTextFromImageData android_device ''AQID'')
       = Rejected (text_recognition_error (Throwable None))"
    "fst (android_extractTextFromImageWithDetails android_device ''/sdcard/missing.png'')
       = Rejected (unknown_error (Throwable (Some ''File not found: /sdcard/missing.png'')))"
    "fst (android_extractTextFromImageDataWithDetails android_device ''QUJD'')
       = Rejected invalid_image"
    "android_extractTextFromImage android_device ''/sdcard/broken.png''
       = (Rejected (unknown_error (Throwable (Some ''Image cannot be decoded''))), [])"
    "android_extractTextFromImage android_device ''/sdcard/missing.png''
       = (Rejected (unknown_error (Throwable (Some ''File not found: /sdcard/missing.png''))), [])"
    "fst (android_extractTextFromImageWithDetails android_device ''/sdcard/blurry.png'')
       = Rejected (text_recognition_error (Throwable None))"
    "fst (android_extractTextFromImageData android_device ''!!'')
       = Rejected (unknown_error (Throwable (Some ''bad base-64'')))"
    by (simp_all add: android_extractTextFromImageData_def
        android_extractTextFromImageWithDetails_def
        android_extractTextFromImageDataWithDetails_def android_extractTextFromImage_def
        open_uri_def android_device_def)
  have ios:
    "Data_contentsOf iphone ''/missing.png'' = Inl (NSError ''no such file'')"
    "Data_contentsOf iphone ''/notes.txt'' = Inr [3]"
    "UIImage_cgImage iphone [3] = None"
    "Data_contentsOf iphone ''/dark.png'' = Inr [4]"
    "UIImage_cgImage iphone [4] = Some \<lparr>img_width = 64, img_height = 64\<rparr>"
    "perform iphone \<lparr>img_width = 64, img_height = 64\<rparr> = Inl (NSError ''request failed'')"
    "Data_contentsOf iphone ''/blank.png'' = Inr [5]"
    "UIImage_cgImage iphone [5] = Some \<lparr>img_width = 32, img_height = 32\<rparr>"
    "perform iphone \<lparr>img_width = 32, img_height = 32\<rparr> = Inr None"
    "Data_base64Encoded iphone ''!!'' = None"
    "Data_base64Encoded iphone ''Aw=='' = Some [3]"
    "Data_base64Encoded iphone ''BA=='' = Some [4]"
    "Data_base64Encoded iphone ''BQ=='' = Some [5]"
    by (simp_all add: iphone_def)
  have ios_runs:
    "fst (ios_extractTextFromImageData iphone ''!!'')
       = Rejected (Exception ''INVALID_BASE64'' ''Invalid base64 data'')"
    "fst (ios_extractTextFromImageWithDetails iphone ''/missing.png'')
       = Rejected (NSError ''no such file'')"
    "fst (ios_extractTextFromImageDataWithDetails iphone ''Aw=='')
       = Rejected (Exception ''INVALID_IMAGE'' ''Unable to create image from data'')"
    by (simp_all add: ios_extractTextFromImageData_def ios_extractTextFromImageWithDetails_def
        ios_extractTextFromImageDataWithDetails_def iphone_def)
  note tags = rejection_tags [where env = android_device
      and ?u1.0 = "''/sdcard/missing.png''"
      and ?t1.0 = "Throwable (Some ''File not found: /sdcard/missing.png'')"
      and ?u2.0 = "''/sdcard/broken.png''" and ?uri2.0 = "Uri_fromFile ''/sdcard/broken.png''"
      and ?t2.0 = "Throwable (Some ''Image cannot be decoded'')"
      and ?u3.0 = "''/sdcard/blurry.png''" and ?uri3.0 = "Uri_fromFile ''/sdcard/blurry.png''"
      and ?img3.0 = 2 and ?t3.0 = "Throwable None"
      and ?d4.0 = "''!!''" and ?t4.0 = "Throwable (Some ''bad base-64'')"
      and ?d5.0 = "''QUJD''" and ?bytes5.0 = "[65, 66, 67]"
      and ?d6.0 = "''AQID''" and ?bytes6.0 = "[1, 2, 3]" and ?bmp6.0 = 2
      and ?t6.0 = "Throwable None"
      and d = "''AQID''" and ?e1.0 = "text_recognition_error (Throwable None)"
      and u = "''/sdcard/missing.png''"
      and ?e2.0 = "unknown_error (Throwable (Some ''File not found: /sdcard/missing.png''))"
      and d' = "''QUJD''" and ?e3.0 = invalid_image
      and u' = "''/sdcard/broken.png''"
      and ?e4.0 = "unknown_error (Throwable (Some ''Image cannot be decoded''))"
      and ios = iphone
      and ?q1.0 = "''/missing.png''" and ?thrown1.0 = "NSError ''no such file''"
      and ?q2.0 = "''/notes.txt''" and ?data2.0 = "[3]"
      and ?q3.0 = "''/dark.png''" and ?data3.0 = "[4]"
      and ?cg3.0 = "\<lparr>img_width = 64, img_height = 64\<rparr>"
      and ?thrown3.0 = "NSError ''request failed''"
      and ?q4.0 = "''/blank.png''" and ?data4.0 = "[5]"
      and ?cg4.0 = "\<lparr>img_width = 32, img_height = 32\<rparr>"
      and ?b5.0 = "''!!''"
      and ?b6.0 = "''Aw==''" and ?data6.0 = "[3]"
      and ?b7.0 = "''BA==''" and ?data7.0 = "[4]"
      and ?cg7.0 = "\<lparr>img_width = 64, img_height = 64\<rparr>"
      and ?thrown7.0 = "NSError ''request failed''"
      and ?b8.0 = "''BQ==''" and ?data8.0 = "[5]"
      and ?cg8.0 = "\<lparr>img_width = 32, img_height = 32\<rparr>"
      and b = "''!!''" and ?e5.0 = "Exception ''INVALID_BASE64'' ''Invalid base64 data''"
      and q = "''/missing.png''" and ?e6.0 = "NSError ''no such file''"
      and b' = "''Aw==''"
      and ?e7.0 = "Exception ''INVALID_IMAGE'' ''Unable to create image from data''"]
  from android android_runs ios ios_runs tags
  show ?thesis
    by simp
qed

text \<open>C4 as stated confines every rejection to the nine kinds; a failed recognition on
  Android is rejected with \<^verbatim>\<open>TEXT_RECOGNITION_ERROR\<close>.\<close>

theorem rejection_tags_counterexample:
  "extractTextFromImageData (android_module android_device) ''AQID'' =
       (Rejected \<lparr>ce_code = ''TEXT_RECOGNITION_ERROR'',
                  ce_message = Some ''Text recognition failed'',
                  ce_cause = Some (Throwable None)\<rparr>,
        [2])
   \<and> ''TEXT_RECOGNITION_ERROR'' \<notin> set OCRErrorCode_values"
  by (simp add: extractTextFromImageData_def android_module_def
      android_extractTextFromImageData_def android_device_def text_recognition_error_def
      orElse_def OCRErrorCode_values_def Let_def)



end
